theory Spec2Isabelle
  imports Main "HOL-Library.Word" "HOL-Library.AList"
begin

section \<open>Common vocabulary\<close>

text \<open>
  A JavaScript \<^verbatim>\<open>Uint8Array\<close> is a list of bytes. A thrown \<^verbatim>\<open>Error(message)\<close> is the
  value \<open>Error message\<close>; an \<^verbatim>\<open>async\<close> function that rejects returns \<open>Inl\<close> of it, one
  that resolves returns \<open>Inr\<close> of its value.
\<close>

type_synonym byte = "8 word"
type_synonym bytes = "byte list"

datatype error = Error string

fun message :: "error \<Rightarrow> string" where
  "message (Error m) = m"

section \<open>Printer types (types/printer.ts)\<close>

text \<open>
  The string unions are datatypes. Fields of different interfaces that share a name
  carry a prefix: \<open>p_\<close> for \<^verbatim>\<open>PrinterDevice\<close>, \<open>cfg_\<close> for the two common fields of
  \<^verbatim>\<open>PrinterConfig\<close>, \<open>j_\<close> for \<^verbatim>\<open>PrintJob\<close>. An optional field is an \<open>option\<close>; a
  \<^verbatim>\<open>Date\<close> is the number of milliseconds it holds.
\<close>

datatype printer_connection_type = USB | Network | Bluetooth | API

fun type_string :: "printer_connection_type \<Rightarrow> string" where
  "type_string USB = ''usb''"
| "type_string Network = ''network''"
| "type_string Bluetooth = ''bluetooth''"
| "type_string API = ''api''"

datatype printer_status = Connected | Disconnected | Connecting | StatusError

record printer_config =
  cfg_name :: string
  cfg_type :: printer_connection_type
  model :: "string option"
  paperWidth :: "nat option"
  vendorId :: "nat option"
  productId :: "nat option"
  ipAddress :: "string option"
  port :: "nat option"
  bluetoothId :: "string option"
  apiEndpoint :: "string option"
  apiKey :: "string option"

record printer_device =
  p_id :: string
  p_name :: string
  p_type :: printer_connection_type
  p_status :: printer_status
  p_lastUsed :: "nat option"
  p_config :: printer_config

datatype job_status = Pending | Printing | Completed | Failed

record print_job =
  j_id :: string
  j_printerId :: string
  j_data :: bytes
  j_timestamp :: nat
  j_status :: job_status
  j_retries :: "nat option"
  j_error :: "string option"

section \<open>PrinterManager (utils/PrinterManager.ts)\<close>

subsection \<open>State\<close>

text \<open>
  JavaScript objects are shared by reference, and an \<^verbatim>\<open>async\<close> method keeps the objects
  it looked up across its \<^verbatim>\<open>await\<close>. So the printer objects, the connection objects, the
  job objects and the arrays live in stores; a reference is an index into its store and
  a new object gets the next free index.

  A connection object is seen by the manager through the \<^verbatim>\<open>PrinterConnection\<close> interface
  only: \<open>c_type\<close> is the class \<^verbatim>\<open>createConnection\<close> instantiated, \<open>c_isConnected\<close> what
  \<^verbatim>\<open>isConnected()\<close> returns. Two fields are bookkeeping of the model: \<open>c_for\<close> is the id
  whose \<^verbatim>\<open>connectPrinter\<close> call constructed the object, and \<open>c_open\<close> says that its
  \<^verbatim>\<open>connect()\<close> has resolved and its \<^verbatim>\<open>disconnect()\<close> has not been called since: the object
  is a live transport session holding the device, socket or GATT link.
\<close>

type_synonym ref = nat

record connection =
  c_type :: printer_connection_type
  c_for :: string
  c_open :: bool
  c_isConnected :: bool

text \<open>
  \<^verbatim>\<open>emit(event, data)\<close> calls the listeners synchronously. The listeners are the
  environment; they are taken to return normally and not to call the manager from
  inside the call. The model records what a listener is handed: the event, and for an
  object the reference together with the value the object has at that moment.
\<close>

datatype event =
    PrinterAdded ref printer_device
  | PrinterRemoved string
  | ActivePrinterChanged string
  | PrinterStatusChanged string printer_status "string option"
  | PrintJobAdded ref print_job
  | PrintJobUpdated ref print_job
  | PrintQueueCleared
  | PrintJobRemoved string

text \<open>
  The browser's \<^verbatim>\<open>localStorage\<close> item \<^verbatim>\<open>thermalPrinters\<close>: there is no \<^verbatim>\<open>window\<close> (server
  side), the item is not set (or empty), its text is not JSON (\<^verbatim>\<open>JSON.parse\<close> throws), or
  it is a \<^verbatim>\<open>PrinterDevice[]\<close> as \<^verbatim>\<open>savePrinters\<close> writes it.
\<close>

datatype storage = NoWindow | NoItem | Corrupt | Saved "printer_device list"

text \<open>
  The two \<^verbatim>\<open>Map\<close>s are association lists from the key to the reference of the object: a
  JavaScript \<^verbatim>\<open>Map\<close> keeps insertion order, \<^verbatim>\<open>set\<close> replaces in place or appends
  (\<open>AList.update\<close>), \<^verbatim>\<open>get\<close> is \<open>map_of\<close>. \<open>printQueue\<close> is the reference of the array the
  field points to; an array holds references of job objects.

  \<open>emitted\<close> is the log of emitted events and \<open>wire\<close> the log of the calls
  \<^verbatim>\<open>connection.print(data)\<close>, each with the connection, the job it was made for and the
  data. The calls of the manager's \<^verbatim>\<open>async\<close> methods that are suspended at their
  \<^verbatim>\<open>await\<close> are kept with what they hold on to:
  \<^item> \<open>awaiting_connect\<close>: \<^verbatim>\<open>connectPrinter(id)\<close> at \<^verbatim>\<open>await connection.connect()\<close>, as
    (connection, (id, printer));
  \<^item> \<open>awaiting_disconnect\<close>: \<^verbatim>\<open>disconnectPrinter(id)\<close> at \<^verbatim>\<open>await connection.disconnect()\<close>,
    as (id, printer);
  \<^item> \<open>awaiting_print\<close>: \<^verbatim>\<open>print(data, printerId)\<close> at \<^verbatim>\<open>await connection.print(data)\<close>, as
    (job, (printer, job id)).
\<close>

record manager =
  printers :: "(string \<times> ref) list"
  connections :: "(string \<times> ref) list"
  activePrinterId :: "string option"
  printQueue :: ref
  printer_objs :: "printer_device list"
  conn_objs :: "connection list"
  job_objs :: "print_job list"
  array_objs :: "ref list list"
  emitted :: "event list"
  localStorage :: storage
  awaiting_connect :: "(ref \<times> string \<times> ref) list"
  awaiting_disconnect :: "(string \<times> ref) list"
  awaiting_print :: "(ref \<times> ref \<times> string) list"
  wire :: "(ref \<times> ref \<times> bytes) list"

definition emit :: "event \<Rightarrow> manager \<Rightarrow> manager" where
  "emit e s = s\<lparr>emitted := emitted s @ [e]\<rparr>"

text \<open>Assignments to fields of a printer object and of a job object.\<close>

definition upd_printer :: "ref \<Rightarrow> (printer_device \<Rightarrow> printer_device) \<Rightarrow> manager \<Rightarrow> manager" where
  "upd_printer pr f s = s\<lparr>printer_objs := (printer_objs s)[pr := f (printer_objs s ! pr)]\<rparr>"

definition upd_job :: "ref \<Rightarrow> (print_job \<Rightarrow> print_job) \<Rightarrow> manager \<Rightarrow> manager" where
  "upd_job j f s = s\<lparr>job_objs := (job_objs s)[j := f (job_objs s ! j)]\<rparr>"

definition upd_conn :: "ref \<Rightarrow> (connection \<Rightarrow> connection) \<Rightarrow> manager \<Rightarrow> manager" where
  "upd_conn r f s = s\<lparr>conn_objs := (conn_objs s)[r := f (conn_objs s ! r)]\<rparr>"

subsection \<open>Persistence\<close>

text \<open>\<^verbatim>\<open>JSON.stringify(Array.from(this.printers.values()))\<close> stores the objects as they are now.\<close>

definition savePrinters :: "manager \<Rightarrow> manager" where
  "savePrinters s =
     (case localStorage s of
        NoWindow \<Rightarrow> s
      | _ \<Rightarrow> s\<lparr>localStorage := Saved (map (\<lambda>(pid, pr). printer_objs s ! pr) (printers s))\<rparr>)"

text \<open>
  The body of the \<^verbatim>\<open>forEach\<close>, for one object \<^verbatim>\<open>JSON.parse\<close> has made: reset the status,
  then \<^verbatim>\<open>this.printers.set(printer.id, printer)\<close>.
\<close>

definition load_one :: "manager \<Rightarrow> printer_device \<Rightarrow> manager" where
  "load_one s printer =
     s\<lparr>printer_objs := printer_objs s @ [printer\<lparr>p_status := Disconnected\<rparr>],
        printers := AList.update (p_id printer) (length (printer_objs s)) (printers s)\<rparr>"

definition loadSavedPrinters :: "manager \<Rightarrow> manager" where
  "loadSavedPrinters s =
     (case localStorage s of
        Saved printersData \<Rightarrow> foldl load_one s printersData
      | _ \<Rightarrow> s)"

text \<open>The field initialisers and the constructor, \<open>st\<close> being what the browser stores.\<close>

definition new_manager :: "storage \<Rightarrow> manager" where
  "new_manager st =
     loadSavedPrinters
       \<lparr>printers = [], connections = [], activePrinterId = None, printQueue = 0,
        printer_objs = [], conn_objs = [], job_objs = [], array_objs = [[]],
        emitted = [], localStorage = st,
        awaiting_connect = [], awaiting_disconnect = [], awaiting_print = [], wire = []\<rparr>"

subsection \<open>Printer management\<close>

text \<open>Decimal digits of a number, as a template literal prints it.\<close>

fun dec :: "nat \<Rightarrow> string" where
  "dec n = (if n < 10 then [''0123456789'' ! n]
            else dec (n div 10) @ [''0123456789'' ! (n mod 10)])"

declare dec.simps [simp del]

text \<open>
  \<^verbatim>\<open>addPrinter\<close> awaits nothing. The clock and the random source are the environment:
  \<open>now\<close> is \<^verbatim>\<open>Date.now()\<close> and \<open>rnd\<close> the text \<^verbatim>\<open>Math.random().toString(36).substr(2, 9)\<close>.
\<close>

definition printer_id :: "printer_config \<Rightarrow> nat \<Rightarrow> string \<Rightarrow> string" where
  "printer_id config now rnd = type_string (cfg_type config) @ ''_'' @ dec now @ ''_'' @ rnd"

definition addPrinter :: "printer_config \<Rightarrow> nat \<Rightarrow> string \<Rightarrow> manager \<Rightarrow> string \<times> manager" where
  "addPrinter config now rnd s =
     (let pid = printer_id config now rnd;
          printer = \<lparr>p_id = pid, p_name = cfg_name config, p_type = cfg_type config,
                     p_status = Disconnected, p_lastUsed = None, p_config = config\<rparr>;
          pr = length (printer_objs s);
          s1 = s\<lparr>printer_objs := printer_objs s @ [printer],
                  printers := AList.update pid pr (printers s)\<rparr>
      in (pid, emit (PrinterAdded pr printer) (savePrinters s1)))"

text \<open>\<^verbatim>\<open>connection.disconnect()\<close> on the object \<open>r\<close>: every class drops its handles and its flag.\<close>

definition conn_disconnect :: "ref \<Rightarrow> manager \<Rightarrow> manager" where
  "conn_disconnect r s = upd_conn r (\<lambda>c. c\<lparr>c_open := False, c_isConnected := False\<rparr>) s"

text \<open>
  \<^verbatim>\<open>disconnectPrinter\<close> in two steps. \<open>disconnect_begin\<close> is the call up to
  \<^verbatim>\<open>await connection.disconnect()\<close>: with a printer and a connection it calls
  \<^verbatim>\<open>disconnect()\<close> and suspends (\<open>True\<close>), otherwise it has nothing to do and the promise
  resolves (\<open>False\<close>). \<open>disconnect_finish\<close> resumes a suspended call; an error of
  \<^verbatim>\<open>disconnect()\<close> is caught and logged, so the call goes on the same way either way, and its
  promise always resolves.
\<close>

definition disconnect_begin :: "string \<Rightarrow> manager \<Rightarrow> bool \<times> manager" where
  "disconnect_begin pid s =
     (case (map_of (printers s) pid, map_of (connections s) pid) of
        (Some pr, Some r) \<Rightarrow>
          (True, (conn_disconnect r s)\<lparr>awaiting_disconnect := awaiting_disconnect s @ [(pid, pr)]\<rparr>)
      | _ \<Rightarrow> (False, s))"

definition disconnect_finish :: "string \<Rightarrow> ref \<Rightarrow> manager \<Rightarrow> manager" where
  "disconnect_finish pid pr s =
     (if (pid, pr) \<in> set (awaiting_disconnect s) then
        (let s0 = s\<lparr>awaiting_disconnect := remove1 (pid, pr) (awaiting_disconnect s)\<rparr>;
             s1 = upd_printer pr (\<lambda>p. p\<lparr>p_status := Disconnected\<rparr>) s0;
             s2 = s1\<lparr>connections := AList.delete pid (connections s1)\<rparr>
         in emit (PrinterStatusChanged pid Disconnected None) s2)
      else s)"

text \<open>A call of \<^verbatim>\<open>disconnectPrinter\<close> that nothing interleaves with.\<close>

definition disconnectPrinter :: "string \<Rightarrow> manager \<Rightarrow> manager" where
  "disconnectPrinter pid s =
     (case disconnect_begin pid s of
        (True, s1) \<Rightarrow> disconnect_finish pid (the (map_of (printers s) pid)) s1
      | (False, s1) \<Rightarrow> s1)"

text \<open>
  \<^verbatim>\<open>removePrinter\<close> is not \<^verbatim>\<open>async\<close>. It calls \<^verbatim>\<open>disconnectPrinter(id)\<close> without awaiting
  it: that call runs up to its \<^verbatim>\<open>await\<close> and stays suspended while \<^verbatim>\<open>removePrinter\<close>
  goes on.
\<close>

definition removePrinter :: "string \<Rightarrow> manager \<Rightarrow> bool \<times> manager" where
  "removePrinter pid s =
     (case map_of (printers s) pid of
        None \<Rightarrow> (False, s)
      | Some pr \<Rightarrow>
          (let s1 = (if p_status (printer_objs s ! pr) = Connected
                     then snd (disconnect_begin pid s) else s);
               s2 = s1\<lparr>printers := AList.delete pid (printers s1),
                       connections := AList.delete pid (connections s1)\<rparr>;
               s3 = (if activePrinterId s2 = Some pid then s2\<lparr>activePrinterId := None\<rparr> else s2)
           in (True, emit (PrinterRemoved pid) (savePrinters s3))))"

definition getPrinters :: "manager \<Rightarrow> ref list" where
  "getPrinters s = map snd (printers s)"

definition getPrinter :: "string \<Rightarrow> manager \<Rightarrow> ref option" where
  "getPrinter pid s = map_of (printers s) pid"

definition setActivePrinter :: "string \<Rightarrow> manager \<Rightarrow> bool \<times> manager" where
  "setActivePrinter pid s =
     (if map_of (printers s) pid = None then (False, s)
      else (True, emit (ActivePrinterChanged pid) (s\<lparr>activePrinterId := Some pid\<rparr>)))"

subsection \<open>Connection management\<close>

text \<open>
  \<^verbatim>\<open>createConnection\<close>: the class follows \<^verbatim>\<open>config.type\<close>; a new object is not connected.
  The \<^verbatim>\<open>default\<close> branch of the \<^verbatim>\<open>switch\<close> has no value of the type to reach it.
\<close>

definition createConnection :: "printer_config \<Rightarrow> connection" where
  "createConnection config =
     \<lparr>c_type = cfg_type config, c_for = [], c_open = False, c_isConnected = False\<rparr>"

text \<open>
  \<^verbatim>\<open>connectPrinter\<close> in two steps. \<open>connect_begin\<close> is the call up to
  \<^verbatim>\<open>await connection.connect()\<close>: it fails (\<open>Inl\<close>), returns at once because the printer
  is connected (\<open>Inr None\<close>), or suspends on the connection it created (\<open>Inr (Some r)\<close>).
  \<open>connect_finish\<close> resumes the call waiting for \<open>r\<close> when the promise of \<^verbatim>\<open>connect()\<close>
  settles: \<open>outcome\<close> is \<open>None\<close> when it resolves and \<open>Some m\<close> when it rejects with message
  \<open>m\<close>; \<open>now\<close> is the clock. Whatever else the manager is asked to do between the two
  steps runs between them.
\<close>

definition connect_begin :: "string \<Rightarrow> manager \<Rightarrow> (error + ref option) \<times> manager" where
  "connect_begin pid s =
     (case map_of (printers s) pid of
        None \<Rightarrow> (Inl (Error ''Printer not found''), s)
      | Some pr \<Rightarrow>
          if p_status (printer_objs s ! pr) = Connected then (Inr None, s)
          else
            (let s1 = upd_printer pr (\<lambda>p. p\<lparr>p_status := Connecting\<rparr>) s;
                 s2 = emit (PrinterStatusChanged pid Connecting None) s1;
                 r = length (conn_objs s2);
                 connection = (createConnection (p_config (printer_objs s ! pr)))\<lparr>c_for := pid\<rparr>
             in (Inr (Some r),
                 s2\<lparr>conn_objs := conn_objs s2 @ [connection],
                    awaiting_connect := awaiting_connect s2 @ [(r, pid, pr)]\<rparr>)))"

definition connect_finish ::
  "ref \<Rightarrow> string option \<Rightarrow> nat \<Rightarrow> manager \<Rightarrow> (error + unit) \<times> manager" where
  "connect_finish r outcome now s =
     (case map_of (awaiting_connect s) r of
        None \<Rightarrow> (Inr (), s)
      | Some (pid, pr) \<Rightarrow>
          (let s0 = s\<lparr>awaiting_connect := AList.delete r (awaiting_connect s)\<rparr> in
           case outcome of
             None \<Rightarrow>
               (let s1 = upd_conn r (\<lambda>c. c\<lparr>c_open := True, c_isConnected := True\<rparr>) s0;
                    s2 = s1\<lparr>connections := AList.update pid r (connections s1)\<rparr>;
                    s3 = upd_printer pr (\<lambda>p. p\<lparr>p_status := Connected, p_lastUsed := Some now\<rparr>) s2;
                    s4 = savePrinters s3
                in (Inr (), emit (PrinterStatusChanged pid Connected None) s4))
           | Some m \<Rightarrow>
               (let s1 = upd_printer pr (\<lambda>p. p\<lparr>p_status := StatusError\<rparr>) s0
                in (Inl (Error m), emit (PrinterStatusChanged pid StatusError (Some m)) s1))))"


text \<open>
  The link of a connection goes down by itself (\<^verbatim>\<open>socket.onclose\<close>,
  \<^verbatim>\<open>gattserverdisconnected\<close>): the object's flag drops, the manager is not told.
\<close>

definition link_down :: "ref \<Rightarrow> manager \<Rightarrow> manager" where
  "link_down r s = upd_conn r (\<lambda>c. c\<lparr>c_isConnected := False\<rparr>) s"

subsection \<open>Printing\<close>

text \<open>The array \<^verbatim>\<open>this.printQueue\<close> points to, and an update of it in place.\<close>

definition queue :: "manager \<Rightarrow> ref list" where
  "queue s = array_objs s ! printQueue s"

definition set_queue :: "ref list \<Rightarrow> manager \<Rightarrow> manager" where
  "set_queue q s = s\<lparr>array_objs := (array_objs s)[printQueue s := q]\<rparr>"

text \<open>\<^verbatim>\<open>a || b\<close> on optional strings: \<^verbatim>\<open>undefined\<close>, \<^verbatim>\<open>null\<close> and the empty string are falsy.\<close>

definition truthy :: "string option \<Rightarrow> bool" where
  "truthy x = (case x of None \<Rightarrow> False | Some v \<Rightarrow> v \<noteq> [])"

definition or_else :: "string option \<Rightarrow> string option \<Rightarrow> string option" where
  "or_else a b = (if truthy a then a else b)"

definition job_id :: "nat \<Rightarrow> string \<Rightarrow> string" where
  "job_id now rnd = ''job_'' @ dec now @ ''_'' @ rnd"

text \<open>
  \<^verbatim>\<open>print\<close> in two steps. \<open>print_begin\<close> is the call up to \<^verbatim>\<open>await connection.print(data)\<close>:
  \<open>now\<close> (\<^verbatim>\<open>Date.now()\<close>) and \<open>rnd\<close> make the job id, \<open>stamp\<close> is \<^verbatim>\<open>new Date()\<close>. It fails
  (\<open>Inl\<close>) or suspends with the job it created (\<open>Inr j\<close>), having called the driver.
  \<open>print_finish\<close> resumes the call of job \<open>j\<close> when the driver's promise settles: \<open>outcome\<close>
  is \<open>None\<close> when it resolves and \<open>Some m\<close> when it rejects with message \<open>m\<close>, \<open>fin\<close> is the
  clock then. It returns the job id or fails with the driver's error.
\<close>

definition print_begin ::
  "bytes \<Rightarrow> string option \<Rightarrow> nat \<Rightarrow> string \<Rightarrow> nat \<Rightarrow> manager \<Rightarrow> (error + ref) \<times> manager" where
  "print_begin data printerId now rnd stamp s =
     (case or_else printerId (activePrinterId s) of
        None \<Rightarrow> (Inl (Error ''No printer selected''), s)
      | Some targetId \<Rightarrow>
          if targetId = [] then (Inl (Error ''No printer selected''), s)
          else
            (case (map_of (printers s) targetId, map_of (connections s) targetId) of
               (Some pr, Some r) \<Rightarrow>
                 if \<not> c_isConnected (conn_objs s ! r) then (Inl (Error ''Printer not connected''), s)
                 else
                   (let job = \<lparr>j_id = job_id now rnd, j_printerId = targetId, j_data = data,
                                j_timestamp = stamp, j_status = Pending, j_retries = None,
                                j_error = None\<rparr>;
                        j = length (job_objs s);
                        s1 = s\<lparr>job_objs := job_objs s @ [job]\<rparr>;
                        s2 = emit (PrintJobAdded j job) (set_queue (queue s1 @ [j]) s1);
                        s3 = upd_job j (\<lambda>b. b\<lparr>j_status := Printing\<rparr>) s2;
                        s4 = emit (PrintJobUpdated j (job_objs s3 ! j)) s3
                    in (Inr j, s4\<lparr>wire := wire s4 @ [(r, j, data)],
                                   awaiting_print := awaiting_print s4 @ [(j, pr, job_id now rnd)]\<rparr>))
             | _ \<Rightarrow> (Inl (Error ''Printer not found or not connected''), s)))"

definition print_finish ::
  "ref \<Rightarrow> string option \<Rightarrow> nat \<Rightarrow> manager \<Rightarrow> (error + string) option \<times> manager" where
  "print_finish j outcome fin s =
     (case map_of (awaiting_print s) j of
        None \<Rightarrow> (None, s)
      | Some (pr, jobId) \<Rightarrow>
          (let s0 = s\<lparr>awaiting_print := AList.delete j (awaiting_print s)\<rparr> in
           case outcome of
             None \<Rightarrow>
               (let s1 = upd_job j (\<lambda>b. b\<lparr>j_status := Completed\<rparr>) s0;
                    s2 = upd_printer pr (\<lambda>p. p\<lparr>p_lastUsed := Some fin\<rparr>) s1;
                    s3 = emit (PrintJobUpdated j (job_objs s2 ! j)) s2
                in (Some (Inr jobId), savePrinters s3))
           | Some m \<Rightarrow>
               (let s1 = upd_job j (\<lambda>b. b\<lparr>j_status := Failed, j_error := Some m\<rparr>) s0
                in (Some (Inl (Error m)), emit (PrintJobUpdated j (job_objs s1 ! j)) s1))))"

subsection \<open>Print queue management\<close>

text \<open>
  \<^verbatim>\<open>[...this.printQueue]\<close> is a new array holding the same job references; the reference
  of the new array is returned.
\<close>

definition getPrintQueue :: "manager \<Rightarrow> ref \<times> manager" where
  "getPrintQueue s = (length (array_objs s), s\<lparr>array_objs := array_objs s @ [queue s]\<rparr>)"

definition clearPrintQueue :: "manager \<Rightarrow> manager" where
  "clearPrintQueue s =
     emit PrintQueueCleared
       (s\<lparr>printQueue := length (array_objs s), array_objs := array_objs s @ [[]]\<rparr>)"

fun findIndex :: "('a \<Rightarrow> bool) \<Rightarrow> 'a list \<Rightarrow> nat option" where
  "findIndex P [] = None"
| "findIndex P (x # xs) =
     (if P x then Some 0 else (case findIndex P xs of None \<Rightarrow> None | Some i \<Rightarrow> Some (Suc i)))"

definition removePrintJob :: "string \<Rightarrow> manager \<Rightarrow> bool \<times> manager" where
  "removePrintJob jobId s =
     (case findIndex (\<lambda>j. j_id (job_objs s ! j) = jobId) (queue s) of
        None \<Rightarrow> (False, s)
      | Some index \<Rightarrow>
          (True, emit (PrintJobRemoved jobId)
                   (set_queue (take index (queue s) @ drop (Suc index) (queue s)) s)))"

text \<open>
  What the holder of an array reference can do to the array (\<^verbatim>\<open>push\<close>, \<^verbatim>\<open>pop\<close>,
  \<^verbatim>\<open>splice\<close>, \<^verbatim>\<open>length = 0\<close>): replace its elements by any others.
\<close>

definition array_mutate :: "ref \<Rightarrow> ref list \<Rightarrow> manager \<Rightarrow> manager" where
  "array_mutate a xs s = s\<lparr>array_objs := (array_objs s)[a := xs]\<rparr>"

subsection \<open>Sequences of operations\<close>

text \<open>
  What can happen to a manager, one thing at a time: a call of a method up to its first
  \<^verbatim>\<open>await\<close> or its return, the resumption of a suspended call, the loss of a link.
  \<^verbatim>\<open>disconnectAll\<close> and \<^verbatim>\<open>testPrinter\<close> are calls of \<^verbatim>\<open>disconnectPrinter\<close> and
  \<^verbatim>\<open>connectPrinter\<close>, so their effects are sequences of these.
\<close>

datatype action =
    AddPrinter printer_config nat string
  | RemovePrinter string
  | SetActivePrinter string
  | ConnectBegin string
  | ConnectFinish ref "string option" nat
  | DisconnectBegin string
  | DisconnectFinish string ref
  | PrintBegin bytes "string option" nat string nat
  | PrintFinish ref "string option" nat
  | GetPrintQueue
  | ClearPrintQueue
  | RemovePrintJob string
  | LinkDown ref

fun step :: "manager \<Rightarrow> action \<Rightarrow> manager" where
  "step s (AddPrinter config now rnd) = snd (addPrinter config now rnd s)"
| "step s (RemovePrinter pid) = snd (removePrinter pid s)"
| "step s (SetActivePrinter pid) = snd (setActivePrinter pid s)"
| "step s (ConnectBegin pid) = snd (connect_begin pid s)"
| "step s (ConnectFinish r outcome now) = snd (connect_finish r outcome now s)"
| "step s (DisconnectBegin pid) = snd (disconnect_begin pid s)"
| "step s (DisconnectFinish pid pr) = disconnect_finish pid pr s"
| "step s (PrintBegin data printerId now rnd stamp) = snd (print_begin data printerId now rnd stamp s)"
| "step s (PrintFinish j outcome fin) = snd (print_finish j outcome fin s)"
| "step s GetPrintQueue = snd (getPrintQueue s)"
| "step s ClearPrintQueue = clearPrintQueue s"
| "step s (RemovePrintJob jobId) = snd (removePrintJob jobId s)"
| "step s (LinkDown r) = link_down r s"

definition run :: "manager \<Rightarrow> action list \<Rightarrow> manager" where
  "run s acts = foldl step s acts"

text \<open>The live sessions that were made for a printer id.\<close>

definition live_sessions :: "manager \<Rightarrow> string \<Rightarrow> ref list" where
  "live_sessions s pid =
     filter (\<lambda>r. c_open (conn_objs s ! r) \<and> c_for (conn_objs s ! r) = pid) [0..<length (conn_objs s)]"

subsection \<open>Proof vocabulary\<close>

text \<open>The print queue field points to an array of the store.\<close>

definition queue_allocated :: "manager \<Rightarrow> bool" where
  "queue_allocated s \<longleftrightarrow> printQueue s < length (array_objs s)"

text \<open>
  The statuses a listener has seen job \<open>j\<close> in, in the order of the events, and the
  number of calls of \<^verbatim>\<open>connection.print\<close> made for job \<open>j\<close>.
\<close>

fun job_statuses :: "ref \<Rightarrow> event list \<Rightarrow> job_status list" where
  "job_statuses j [] = []"
| "job_statuses j (PrintJobAdded j' b # es) =
     (if j' = j then j_status b # job_statuses j es else job_statuses j es)"
| "job_statuses j (PrintJobUpdated j' b # es) =
     (if j' = j then j_status b # job_statuses j es else job_statuses j es)"
| "job_statuses j (e # es) = job_statuses j es"



text \<open>Two states in which the jobs stand the same.\<close>

definition same_jobs :: "manager \<Rightarrow> manager \<Rightarrow> bool" where
  "same_jobs s s' \<longleftrightarrow>
     job_objs s' = job_objs s \<and> awaiting_print s' = awaiting_print s \<and> wire s' = wire s
     \<and> (\<forall>j. job_statuses j (emitted s') = job_statuses j (emitted s))"


subsection \<open>Runs in which the calls for one printer do not overlap\<close>











section \<open>USBPrinterConnection (connectivity/USBConnection.ts)\<close>

text \<open>
  What the class reads of a WebUSB device: whether it is open, and its active
  configuration (\<open>None\<close> is \<^verbatim>\<open>null\<close>) as the list of its interfaces. Device objects are
  shared by reference, so they live in a store (\<open>usb_world\<close>) and \<^verbatim>\<open>this.device\<close> holds a
  reference into it.
\<close>

record usb_interface =
  interfaceNumber :: nat
  claimed :: bool

record usb_device =
  opened :: bool
  configuration :: "usb_interface list option"

type_synonym usb_world = "usb_device list"

record usb_connection =
  device :: "nat option"
  usb_isConnectedFlag :: bool
  usb_currentStatus :: string

text \<open>
  The browser and the device are the environment of one \<^verbatim>\<open>connect()\<close>:
  \<^item> \<open>picked\<close>: \<^verbatim>\<open>requestDevice\<close> rejects, or resolves with the device the user picked, in
    the state it is in;
  \<^item> \<open>open_fails\<close>: \<^verbatim>\<open>device.open()\<close> resolves (\<open>None\<close>) or rejects with a message;
  \<^item> \<open>select_result\<close>: \<^verbatim>\<open>device.selectConfiguration(1)\<close> rejects, or resolves and makes the
    configuration with these interfaces the active one;
  \<^item> \<open>claim_fails k\<close>: the \<open>k\<close>-th call of \<^verbatim>\<open>device.claimInterface\<close> of this \<^verbatim>\<open>connect()\<close>
    resolves (\<open>None\<close>) or rejects with a message.
  The device changes state through these calls only.
\<close>

record usb_env =
  picked :: "error + usb_device"
  open_fails :: "string option"
  select_result :: "error + usb_interface list"
  claim_fails :: "nat \<Rightarrow> string option"

text \<open>
  The first loop: the declared interfaces in order, skipping the claimed ones, up to the
  first claim that resolves. \<open>k\<close> counts the calls of \<^verbatim>\<open>claimInterface\<close> made so far. The
  result is the interface number claimed, if any, and the number of calls.
\<close>

fun claim_declared ::
  "(nat \<Rightarrow> string option) \<Rightarrow> nat \<Rightarrow> usb_interface list \<Rightarrow> nat option \<times> nat" where
  "claim_declared cf k [] = (None, k)"
| "claim_declared cf k (iface # ifaces) =
     (if claimed iface then claim_declared cf k ifaces
      else (case cf k of
              None \<Rightarrow> (Some (interfaceNumber iface), Suc k)
            | Some m \<Rightarrow> claim_declared cf (Suc k) ifaces))"

text \<open>The second loop, over the numbers \<^verbatim>\<open>[0, 1, 2]\<close>.\<close>

fun claim_numbers :: "(nat \<Rightarrow> string option) \<Rightarrow> nat \<Rightarrow> nat list \<Rightarrow> nat option \<times> nat" where
  "claim_numbers cf k [] = (None, k)"
| "claim_numbers cf k (n # ns) =
     (case cf k of
        None \<Rightarrow> (Some n, Suc k)
      | Some m \<Rightarrow> claim_numbers cf (Suc k) ns)"

text \<open>A claim that resolves marks the interface of that number as claimed.\<close>

definition mark_claimed :: "nat \<Rightarrow> usb_device \<Rightarrow> usb_device" where
  "mark_claimed n dev =
     dev\<lparr>configuration :=
           map_option (map (\<lambda>iface. if interfaceNumber iface = n then iface\<lparr>claimed := True\<rparr>
                                     else iface))
             (configuration dev)\<rparr>"

text \<open>
  The body of the \<^verbatim>\<open>try\<close> from \<^verbatim>\<open>requestDevice\<close> to the last claim. It reads and writes no
  field of \<^verbatim>\<open>this\<close>, so it is a conversation with the environment alone: the result is
  the error thrown or nothing, together with the device object, if one was handed out,
  in the state the conversation leaves it in.
\<close>

definition usb_converse :: "usb_env \<Rightarrow> (error + unit) \<times> usb_device option" where
  "usb_converse env =
     (case picked env of
        Inl e \<Rightarrow> (Inl e, None)
      | Inr dev0 \<Rightarrow>
          (case open_fails env of
             Some m \<Rightarrow> (Inl (Error m), Some dev0)
           | None \<Rightarrow>
               (let dev1 = dev0\<lparr>opened := True\<rparr> in
                case (if configuration dev1 = None
                      then (case select_result env of
                              Inl e \<Rightarrow> Inl e
                            | Inr ifaces \<Rightarrow> Inr (dev1\<lparr>configuration := Some ifaces\<rparr>))
                      else Inr dev1) of
                  Inl e \<Rightarrow> (Inl e, Some dev1)
                | Inr dev2 \<Rightarrow>
                    (let first = (case configuration dev2 of
                                    None \<Rightarrow> (None, 0)
                                  | Some ifaces \<Rightarrow> claim_declared (claim_fails env) 0 ifaces);
                         second = (case fst first of
                                     Some n \<Rightarrow> first
                                   | None \<Rightarrow> claim_numbers (claim_fails env) (snd first) [0, 1, 2])
                     in case fst second of
                          None \<Rightarrow> (Inl (Error ''Could not claim any interface''), Some dev2)
                        | Some n \<Rightarrow> (Inr (), Some (mark_claimed n dev2))))))"

text \<open>
  \<^verbatim>\<open>connect()\<close> has three parts. \<open>usb_connect_begin\<close> is the assignment before the first
  \<^verbatim>\<open>await\<close>. \<open>usb_connect_settle\<close> is what runs after the last one, on the object as it is
  then: the three assignments of success (with the reference \<open>d\<close> of the device), or the
  \<^verbatim>\<open>catch\<close>. \<open>usb_connect\<close> is a call that nothing interleaves with; the device object
  handed out, if any, is new in the store.
\<close>

definition usb_connect_begin :: "usb_connection \<Rightarrow> usb_connection" where
  "usb_connect_begin c = c\<lparr>usb_currentStatus := ''Connecting...''\<rparr>"

definition usb_connect_settle ::
  "(error + nat) \<Rightarrow> usb_connection \<Rightarrow> (error + unit) \<times> usb_connection" where
  "usb_connect_settle res c =
     (case res of
        Inr d \<Rightarrow> (Inr (), c\<lparr>device := Some d, usb_isConnectedFlag := True,
                               usb_currentStatus := ''Connected''\<rparr>)
      | Inl e \<Rightarrow> (Inl e, c\<lparr>usb_currentStatus := ''Error: '' @ message e\<rparr>))"

definition usb_connect ::
  "usb_env \<Rightarrow> usb_connection \<times> usb_world \<Rightarrow> (error + unit) \<times> usb_connection \<times> usb_world" where
  "usb_connect env cw =
     (let c1 = usb_connect_begin (fst cw);
          world1 = (case snd (usb_converse env) of
                      None \<Rightarrow> snd cw
                    | Some dev \<Rightarrow> snd cw @ [dev]);
          res = (case fst (usb_converse env) of
                   Inl e \<Rightarrow> Inl e
                 | Inr u \<Rightarrow> Inr (length (snd cw)))
      in (fst (usb_connect_settle res c1), snd (usb_connect_settle res c1), world1))"

text \<open>
  \<^verbatim>\<open>disconnect()\<close>, called when nothing else is in flight on the object. With a device it
  calls \<^verbatim>\<open>close()\<close>, which closes the device unless it rejects (\<open>close_fails\<close>; the error is
  caught), and forgets the device; without one it touches no device.
\<close>

definition usb_disconnect ::
  "string option \<Rightarrow> usb_connection \<times> usb_world \<Rightarrow> usb_connection \<times> usb_world" where
  "usb_disconnect close_fails cw =
     (case device (fst cw) of
        Some d \<Rightarrow>
          ((fst cw)\<lparr>device := None, usb_isConnectedFlag := False, usb_currentStatus := ''Disconnected''\<rparr>,
           (if close_fails = None then (snd cw)[d := (snd cw ! d)\<lparr>opened := False\<rparr>] else snd cw))
      | None \<Rightarrow>
          ((fst cw)\<lparr>usb_isConnectedFlag := False, usb_currentStatus := ''Disconnected''\<rparr>, snd cw))"

section \<open>NetworkPrinterConnection (connectivity/NetworkConnection.ts) and the relay (proxy-server.js)\<close>

text \<open>The \<^verbatim>\<open>readyState\<close> of a WebSocket; \<open>socket = None\<close> is \<^verbatim>\<open>null\<close>.\<close>

datatype ready_state = CONNECTING | OPEN | CLOSING | CLOSED

record network_connection =
  net_isConnectedFlag :: bool
  net_currentStatus :: string
  socket :: "ready_state option"
  net_ipAddress :: string
  net_port :: nat

text \<open>What \<^verbatim>\<open>print\<close> puts on the network: a WebSocket frame, or one of the two HTTP requests.\<close>

datatype net_request =
    WsSend bytes
  | PostToPrinter string nat bytes
  | PostToApi string nat bytes

text \<open>
  \<^verbatim>\<open>print\<close> with \<^verbatim>\<open>printViaHTTP\<close>. The two \<^verbatim>\<open>fetch\<close> calls are the environment: \<open>fetch1\<close> and
  \<open>fetch2\<close> are \<open>None\<close> when the promise resolves (with whatever response) and \<open>Some m\<close>
  when it rejects with message \<open>m\<close>. No field is read after an \<^verbatim>\<open>await\<close>. \<^verbatim>\<open>socket.send\<close>
  returns as soon as the frame is queued.
\<close>

definition net_print ::
  "network_connection \<Rightarrow> string option \<Rightarrow> string option \<Rightarrow> bytes
     \<Rightarrow> (error + unit) \<times> net_request list" where
  "net_print c fetch1 fetch2 data =
     (if \<not> net_isConnectedFlag c then (Inl (Error ''Network printer not connected''), [])
      else if socket c = Some OPEN then (Inr (), [WsSend data])
      else
        (case fetch1 of
           None \<Rightarrow> (Inr (), [PostToPrinter (net_ipAddress c) (net_port c) data])
         | Some m1 \<Rightarrow>
             (case fetch2 of
                None \<Rightarrow> (Inr (), [PostToPrinter (net_ipAddress c) (net_port c) data,
                                   PostToApi (net_ipAddress c) (net_port c) data])
              | Some m2 \<Rightarrow> (Inl (Error m2),
                             [PostToPrinter (net_ipAddress c) (net_port c) data,
                              PostToApi (net_ipAddress c) (net_port c) data]))))"

text \<open>
  The relay's side of one frame. For each frame it opens a TCP socket to the printer;
  what the socket then does is the environment, a sequence of socket events. The
  handlers answer on the WebSocket, if that is still open, with JSON messages of the
  types \<^verbatim>\<open>response\<close>, \<^verbatim>\<open>status\<close> and \<^verbatim>\<open>error\<close>.
\<close>

datatype socket_event =
    SockConnect
  | SockData bytes
  | SockClose
  | SockError string
  | SockTimeout

datatype relay_message =
    Response bytes
  | Status string
  | ErrorMessage string

fun relay_on :: "bool \<Rightarrow> socket_event \<Rightarrow> relay_message list" where
  "relay_on ws_open SockConnect = []"
| "relay_on ws_open (SockData response) = (if ws_open then [Response response] else [])"
| "relay_on ws_open SockClose = (if ws_open then [Status ''Print job completed''] else [])"
| "relay_on ws_open (SockError m) = (if ws_open then [ErrorMessage m] else [])"
| "relay_on ws_open SockTimeout = (if ws_open then [ErrorMessage ''Connection timeout''] else [])"

definition relay_session :: "bool \<Rightarrow> socket_event list \<Rightarrow> relay_message list" where
  "relay_session ws_open events = concat (map (relay_on ws_open) events)"

text \<open>
  The driver's side of a relay message. The class sets \<^verbatim>\<open>onopen\<close>, \<^verbatim>\<open>onerror\<close> and
  \<^verbatim>\<open>onclose\<close> on its socket and no \<^verbatim>\<open>onmessage\<close>: a message that arrives changes nothing.
\<close>

definition net_on_message :: "relay_message \<Rightarrow> network_connection \<Rightarrow> network_connection" where
  "net_on_message m c = c"

text \<open>
  A send through the relay, end to end: the driver's \<^verbatim>\<open>print\<close> on a connection, the
  relay's session for each frame sent (the socket meeting \<open>events\<close>), and the driver
  receiving the relay's messages. The result is the outcome of \<^verbatim>\<open>print\<close>, what the relay
  reported, and the connection afterwards.
\<close>

definition send_through_relay ::
  "network_connection \<Rightarrow> string option \<Rightarrow> string option \<Rightarrow> bytes \<Rightarrow> socket_event list
     \<Rightarrow> (error + unit) \<times> relay_message list \<times> network_connection" where
  "send_through_relay c fetch1 fetch2 data events =
     (let (res, requests) = net_print c fetch1 fetch2 data;
          reported = concat (map (\<lambda>q. case q of WsSend d \<Rightarrow> relay_session True events | _ \<Rightarrow> [])
                              requests)
      in (res, reported, foldl (\<lambda>c m. net_on_message m c) c reported))"

section \<open>BluetoothPrinterConnection (connectivity/BluetoothConnection.ts)\<close>

record bt_properties =
  prop_write :: bool
  prop_writeWithoutResponse :: bool

record bt_characteristic =
  uuid :: string
  properties :: bt_properties

text \<open>
  The fields of the class. Of the device only \<^verbatim>\<open>device.gatt.connected\<close> is read:
  \<open>bt_device = None\<close> is \<^verbatim>\<open>null\<close>, \<open>Some b\<close> a device whose GATT link is up iff \<open>b\<close>.
\<close>

record bluetooth_connection =
  bt_device :: "bool option"
  characteristic :: "bt_characteristic option"
  bt_isConnectedFlag :: bool
  bt_currentStatus :: string

text \<open>One call of \<^verbatim>\<open>writeValueWithoutResponse(chunk)\<close> or \<^verbatim>\<open>writeValueWithResponse(chunk)\<close>.\<close>

datatype bt_write = WriteWithoutResponse bytes | WriteWithResponse bytes

fun chunk_of :: "bt_write \<Rightarrow> bytes" where
  "chunk_of (WriteWithoutResponse c) = c"
| "chunk_of (WriteWithResponse c) = c"

definition chunkSize :: nat where
  "chunkSize = 20"

text \<open>
  The message of the \<^verbatim>\<open>TypeError\<close> that reading \<^verbatim>\<open>this.characteristic.properties\<close> raises
  when the field is \<^verbatim>\<open>null\<close>, in the wording of the engine of the browsers that have Web
  Bluetooth.
\<close>

definition null_read_message :: string where
  "null_read_message =
     ''Cannot read properties of null (reading '' @ [CHR 0x27] @ ''properties'' @ [CHR 0x27] @ '')''"

text \<open>
  The \<^verbatim>\<open>for (let i = 0; i < data.length; i += chunkSize)\<close> loop of \<^verbatim>\<open>print\<close>. Every round
  awaits the write and then a pause, and a call of \<^verbatim>\<open>disconnect()\<close> or \<^verbatim>\<open>connect()\<close> on the
  same object can run at either: the next round reads \<^verbatim>\<open>this.characteristic\<close> again. So
  the field is an input of each round, as the radio is: \<open>chr k\<close> is the value of
  \<^verbatim>\<open>this.characteristic\<close> when round \<open>k\<close> reads it, and \<open>wr k\<close> the outcome of the write call
  of round \<open>k\<close>, \<open>None\<close> when its promise resolves and \<open>Some m\<close> when it rejects with
  message \<open>m\<close>. A round that completes issues one call, so the number of the round is
  \<open>length issued\<close>; \<open>issued\<close> is the list of write calls made so far, a rejected one
  included. \<^verbatim>\<open>data.slice(i, i + chunkSize)\<close> is \<open>take chunkSize (drop i data)\<close>.
\<close>

function bt_print_loop ::
  "(nat \<Rightarrow> bt_characteristic option) \<Rightarrow> (nat \<Rightarrow> string option) \<Rightarrow> bytes \<Rightarrow> nat \<Rightarrow> bt_write list
     \<Rightarrow> (error + unit) \<times> bt_write list" where
  "bt_print_loop chr wr data i issued =
     (if i < length data then
        (let chunk = take chunkSize (drop i data) in
         case chr (length issued) of
           None \<Rightarrow> (Inl (Error null_read_message), issued)
         | Some ch \<Rightarrow>
             if prop_writeWithoutResponse (properties ch) then
               (case wr (length issued) of
                  Some m \<Rightarrow> (Inl (Error m), issued @ [WriteWithoutResponse chunk])
                | None \<Rightarrow> bt_print_loop chr wr data (i + chunkSize)
                            (issued @ [WriteWithoutResponse chunk]))
             else if prop_write (properties ch) then
               (case wr (length issued) of
                  Some m \<Rightarrow> (Inl (Error m), issued @ [WriteWithResponse chunk])
                | None \<Rightarrow> bt_print_loop chr wr data (i + chunkSize)
                            (issued @ [WriteWithResponse chunk]))
             else (Inl (Error ''Characteristic does not support writing''), issued))
      else (Inr (), issued))"
  by pat_completeness auto
termination
  by (relation "measure (\<lambda>(chr, wr, data, i, issued). length data - i)")
     (auto simp: chunkSize_def)

declare bt_print_loop.simps [simp del]

text \<open>
  \<^verbatim>\<open>BluetoothPrinterConnection.print\<close> called on an object in state \<open>c\<close>. The guard on the
  characteristic is outside the \<^verbatim>\<open>try\<close>; every error of the loop is rethrown with the
  prefix. Nothing is awaited between the guard and the first round, so round 0 reads the
  field as the guard did; the later rounds read what \<open>chr\<close> gives.
\<close>

definition bt_field ::
  "bluetooth_connection \<Rightarrow> (nat \<Rightarrow> bt_characteristic option) \<Rightarrow> nat \<Rightarrow> bt_characteristic option" where
  "bt_field c chr k = (if k = 0 then characteristic c else chr k)"

definition bt_print ::
  "bluetooth_connection \<Rightarrow> (nat \<Rightarrow> bt_characteristic option) \<Rightarrow> (nat \<Rightarrow> string option) \<Rightarrow> bytes
     \<Rightarrow> (error + unit) \<times> bt_write list" where
  "bt_print c chr wr data =
     (case characteristic c of
        None \<Rightarrow> (Inl (Error ''Bluetooth printer not connected''), [])
      | Some ch \<Rightarrow>
          (case bt_print_loop (bt_field c chr) wr data 0 [] of
             (Inl e, issued) \<Rightarrow> (Inl (Error (''Bluetooth print failed: '' @ message e)), issued)
           | (Inr u, issued) \<Rightarrow> (Inr u, issued)))"

text \<open>
  Proof vocabulary. The characteristic accepts some kind of write; the call a round makes
  for a chunk; round \<open>k\<close> goes well: the field holds a characteristic that accepts a kind
  of write, and the write resolves.
\<close>

definition bt_writable :: "bt_properties \<Rightarrow> bool" where
  "bt_writable props \<longleftrightarrow> prop_writeWithoutResponse props \<or> prop_write props"

definition bt_call :: "bt_properties \<Rightarrow> bytes \<Rightarrow> bt_write" where
  "bt_call props c = (if prop_writeWithoutResponse props then WriteWithoutResponse c else WriteWithResponse c)"

definition bt_round_ok ::
  "(nat \<Rightarrow> bt_characteristic option) \<Rightarrow> (nat \<Rightarrow> string option) \<Rightarrow> nat \<Rightarrow> bool" where
  "bt_round_ok chr wr k \<longleftrightarrow>
     (case chr k of None \<Rightarrow> False | Some ch \<Rightarrow> bt_writable (properties ch)) \<and> wr k = None"

section \<open>Example values\<close>

text \<open>A network printer as the interface registers it, and the record a connected one leaves in the store.\<close>

definition front_desk :: printer_config where
  "front_desk =
     \<lparr>cfg_name = ''Front desk'', cfg_type = Network, model = None, paperWidth = Some 80,
      vendorId = None, productId = None, ipAddress = Some ''192.168.1.100'', port = Some 9100,
      bluetoothId = None, apiEndpoint = None, apiKey = None\<rparr>"

definition saved_front_desk :: printer_device where
  "saved_front_desk =
     \<lparr>p_id = ''network_17_k3x'', p_name = ''Front desk'', p_type = Network,
      p_status = Connected, p_lastUsed = Some 20, p_config = front_desk\<rparr>"

text \<open>A network printer configuration that names neither host nor port.\<close>

definition no_host :: printer_config where
  "no_host =
     \<lparr>cfg_name = ''Kitchen'', cfg_type = Network, model = None, paperWidth = None,
      vendorId = None, productId = None, ipAddress = None, port = None,
      bluetoothId = None, apiEndpoint = None, apiKey = None\<rparr>"

text \<open>A network connection with its relay socket open.\<close>

definition relay_open :: network_connection where
  "relay_open =
     \<lparr>net_isConnectedFlag = True, net_currentStatus = ''Connected to network printer'',
      socket = Some OPEN, net_ipAddress = ''192.168.1.100'', net_port = 9100\<rparr>"

text \<open>
  A USB printer with one interface, which the operating system's printer driver holds:
  the user picks it, it opens, every claim is refused.
\<close>

definition busy_printer :: usb_env where
  "busy_printer =
     \<lparr>picked = Inr \<lparr>opened = False,
                      configuration = Some [\<lparr>interfaceNumber = 0, claimed = False\<rparr>]\<rparr>,
      open_fails = None,
      select_result = Inl (Error ''not asked''),
      claim_fails = [0 \<mapsto> ''Unable to claim interface.'', 1 \<mapsto> ''Unable to claim interface.'',
                     2 \<mapsto> ''Unable to claim interface.'', 3 \<mapsto> ''Unable to claim interface.'']\<rparr>"

definition fresh_usb :: usb_connection where
  "fresh_usb = \<lparr>device = None, usb_isConnectedFlag = False, usb_currentStatus = ''Not connected''\<rparr>"

section \<open>Evaluating the manager on concrete runs\<close>

lemmas manager_eval =
  run_def new_manager_def loadSavedPrinters_def addPrinter_def printer_id_def dec.simps
  front_desk_def Let_def emit_def savePrinters_def connect_begin_def connect_finish_def
  upd_printer_def upd_conn_def upd_job_def createConnection_def link_down_def update_conv'



section \<open>Reloading the stored printers\<close>

lemma load_one_objs: "printer_objs (load_one s p) = printer_objs s @ [p\<lparr>p_status := Disconnected\<rparr>]"
  by (simp add: load_one_def)

lemma load_one_printers:
  "map_of (printers (load_one s p)) pid =
     (if pid = p_id p then Some (length (printer_objs s)) else map_of (printers s) pid)"
  by (simp add: load_one_def update_conv')

lemma foldl_load_objs:
  "printer_objs (foldl load_one s ps) = printer_objs s @ map (\<lambda>p. p\<lparr>p_status := Disconnected\<rparr>) ps"
  by (induction ps rule: rev_induct) (simp_all add: load_one_objs)

text \<open>An entry after the load is an old one under an id the list does not have, or the object of an element of the list under that element's id.\<close>

lemma foldl_load_printers:
  "map_of (printers (foldl load_one s ps)) pid = Some pr \<Longrightarrow>
     (map_of (printers s) pid = Some pr \<and> pid \<notin> p_id ` set ps)
     \<or> (\<exists>i < length ps. pr = length (printer_objs s) + i \<and> p_id (ps ! i) = pid)"
proof (induction ps arbitrary: pr rule: rev_induct)
  case Nil
  then show ?case by simp
next
  case (snoc p ps)
  show ?case
  proof (cases "pid = p_id p")
    case True
    then have "pr = length (printer_objs s) + length ps"
      using snoc.prems by (simp add: load_one_printers foldl_load_objs)
    then show ?thesis using True by (auto simp: nth_append)
  next
    case False
    then have "map_of (printers (foldl load_one s ps)) pid = Some pr"
      using snoc.prems by (simp add: load_one_printers)
    from snoc.IH[OF this] show ?thesis
      using False by (auto simp: nth_append less_Suc_eq)
  qed
qed

lemma foldl_load_registered:
  "p \<in> set ps \<Longrightarrow>
   \<exists>i < length ps. p_id (ps ! i) = p_id p
      \<and> map_of (printers (foldl load_one s ps)) (p_id p) = Some (length (printer_objs s) + i)"
proof (induction ps rule: rev_induct)
  case Nil
  then show ?case by simp
next
  case (snoc q ps)
  show ?case
  proof (cases "p_id p = p_id q")
    case True
    then have "map_of (printers (foldl load_one s (ps @ [q]))) (p_id p)
               = Some (length (printer_objs s) + length ps)"
      by (simp add: load_one_printers foldl_load_objs)
    then show ?thesis using True by (intro exI[of _ "length ps"]) simp
  next
    case False
    then have "p \<in> set ps" using snoc.prems by auto
    from snoc.IH[OF this] obtain i where i: "i < length ps" "p_id (ps ! i) = p_id p"
      "map_of (printers (foldl load_one s ps)) (p_id p) = Some (length (printer_objs s) + i)"
      by blast
    then show ?thesis using False
      by (intro exI[of _ i]) (simp add: load_one_printers nth_append)
  qed
qed

lemma distinct_ids_index:
  "distinct (map p_id ps) \<Longrightarrow> i < length ps \<Longrightarrow> p \<in> set ps \<Longrightarrow> p_id (ps ! i) = p_id p \<Longrightarrow> ps ! i = p"
proof -
  assume d: "distinct (map p_id ps)" and i: "i < length ps" and p: "p \<in> set ps"
    and e: "p_id (ps ! i) = p_id p"
  from p obtain k where k: "k < length ps" "ps ! k = p" by (auto simp: in_set_conv_nth)
  have "map p_id ps ! i = map p_id ps ! k" using i k e by simp
  moreover have "i < length (map p_id ps)" "k < length (map p_id ps)" using i k by simp_all
  ultimately have "i = k" using d nth_eq_iff_index_eq[of "map p_id ps" i k] by blast
  then show ?thesis using k by simp
qed

text \<open>
  C9. Whatever list of printers the store holds, the manager constructed from it has
  every registered printer in status \<^verbatim>\<open>disconnected\<close>, whatever status was stored; each
  registered object is a stored record under that record's id, changed in nothing but
  the status; every stored id is registered; and when the stored ids are distinct, as
  \<^verbatim>\<open>savePrinters\<close> writes them, every stored record is registered under its id with its
  configuration and all other fields as stored.
\<close>

theorem reload_resets_status:
  "(\<forall>pid pr. map_of (printers (new_manager (Saved ps))) pid = Some pr \<longrightarrow>
       pr < length (printer_objs (new_manager (Saved ps)))
       \<and> p_status (printer_objs (new_manager (Saved ps)) ! pr) = Disconnected
       \<and> (\<exists>q\<in>set ps. p_id q = pid
             \<and> printer_objs (new_manager (Saved ps)) ! pr = q\<lparr>p_status := Disconnected\<rparr>))
   \<and> (\<forall>p\<in>set ps. \<exists>pr q. map_of (printers (new_manager (Saved ps))) (p_id p) = Some pr
             \<and> q \<in> set ps \<and> p_id q = p_id p
             \<and> printer_objs (new_manager (Saved ps)) ! pr = q\<lparr>p_status := Disconnected\<rparr>)
   \<and> (distinct (map p_id ps) \<longrightarrow>
        (\<forall>p\<in>set ps. \<exists>pr. map_of (printers (new_manager (Saved ps))) (p_id p) = Some pr
             \<and> printer_objs (new_manager (Saved ps)) ! pr = p\<lparr>p_status := Disconnected\<rparr>))"
proof -
  define s0 :: manager where "s0 =
       \<lparr>printers = [], connections = [], activePrinterId = None, printQueue = 0,
        printer_objs = [], conn_objs = [], job_objs = [], array_objs = [[]],
        emitted = [], localStorage = Saved ps,
        awaiting_connect = [], awaiting_disconnect = [], awaiting_print = [], wire = []\<rparr>"
  have nm: "new_manager (Saved ps) = foldl load_one s0 ps"
    by (simp add: new_manager_def loadSavedPrinters_def s0_def)
  have objs: "printer_objs (foldl load_one s0 ps) = map (\<lambda>p. p\<lparr>p_status := Disconnected\<rparr>) ps"
    by (simp add: foldl_load_objs s0_def)
  have a: "\<forall>pid pr. map_of (printers (foldl load_one s0 ps)) pid = Some pr \<longrightarrow>
       pr < length (printer_objs (foldl load_one s0 ps))
       \<and> p_status (printer_objs (foldl load_one s0 ps) ! pr) = Disconnected
       \<and> (\<exists>q\<in>set ps. p_id q = pid
             \<and> printer_objs (foldl load_one s0 ps) ! pr = q\<lparr>p_status := Disconnected\<rparr>)"
  proof (intro allI impI)
    fix pid pr assume "map_of (printers (foldl load_one s0 ps)) pid = Some pr"
    from foldl_load_printers[OF this]
    obtain i where i: "i < length ps" "pr = i" "p_id (ps ! i) = pid"
      by (auto simp: s0_def)
    then show "pr < length (printer_objs (foldl load_one s0 ps))
       \<and> p_status (printer_objs (foldl load_one s0 ps) ! pr) = Disconnected
       \<and> (\<exists>q\<in>set ps. p_id q = pid
             \<and> printer_objs (foldl load_one s0 ps) ! pr = q\<lparr>p_status := Disconnected\<rparr>)"
      by (auto simp: objs intro!: bexI[of _ "ps ! i"])
  qed
  have b: "\<exists>i<length ps. p_id (ps ! i) = p_id p
      \<and> map_of (printers (foldl load_one s0 ps)) (p_id p) = Some i" if "p \<in> set ps" for p
    using foldl_load_registered[OF that, of s0] by (simp add: s0_def)
  have b1: "\<forall>p\<in>set ps. \<exists>pr q. map_of (printers (foldl load_one s0 ps)) (p_id p) = Some pr
             \<and> q \<in> set ps \<and> p_id q = p_id p
             \<and> printer_objs (foldl load_one s0 ps) ! pr = q\<lparr>p_status := Disconnected\<rparr>"
  proof
    fix p assume p: "p \<in> set ps"
    from b[OF p] obtain i where i: "i < length ps" "p_id (ps ! i) = p_id p"
      "map_of (printers (foldl load_one s0 ps)) (p_id p) = Some i" by blast
    then show "\<exists>pr q. map_of (printers (foldl load_one s0 ps)) (p_id p) = Some pr
             \<and> q \<in> set ps \<and> p_id q = p_id p
             \<and> printer_objs (foldl load_one s0 ps) ! pr = q\<lparr>p_status := Disconnected\<rparr>"
      by (intro exI[of _ i] exI[of _ "ps ! i"]) (simp add: objs)
  qed
  have c: "distinct (map p_id ps) \<longrightarrow>
        (\<forall>p\<in>set ps. \<exists>pr. map_of (printers (foldl load_one s0 ps)) (p_id p) = Some pr
             \<and> printer_objs (foldl load_one s0 ps) ! pr = p\<lparr>p_status := Disconnected\<rparr>)"
  proof (intro impI ballI)
    fix p assume d: "distinct (map p_id ps)" and p: "p \<in> set ps"
    from b[OF p] obtain i where i: "i < length ps" "p_id (ps ! i) = p_id p"
      "map_of (printers (foldl load_one s0 ps)) (p_id p) = Some i" by blast
    have "ps ! i = p" using distinct_ids_index[OF d i(1) p i(2)] .
    then show "\<exists>pr. map_of (printers (foldl load_one s0 ps)) (p_id p) = Some pr
             \<and> printer_objs (foldl load_one s0 ps) ! pr = p\<lparr>p_status := Disconnected\<rparr>"
      using i by (intro exI[of _ i]) (simp add: objs)
  qed
  show ?thesis unfolding nm using a b1 c by (intro conjI)
qed

theorem reload_resets_status_witness:
  "p_status saved_front_desk = Connected
   \<and> distinct (map p_id [saved_front_desk])
   \<and> map_of (printers (new_manager (Saved [saved_front_desk]))) ''network_17_k3x'' = Some 0
   \<and> printer_objs (new_manager (Saved [saved_front_desk])) ! 0
       = saved_front_desk\<lparr>p_status := Disconnected\<rparr>
   \<and> p_status (printer_objs (new_manager (Saved [saved_front_desk])) ! 0) = Disconnected
   \<and> p_config (printer_objs (new_manager (Saved [saved_front_desk])) ! 0) = front_desk"
proof -
  have m: "map_of (printers (new_manager (Saved [saved_front_desk]))) ''network_17_k3x'' = Some 0"
    by (simp add: new_manager_def loadSavedPrinters_def load_one_def saved_front_desk_def)
  have d: "distinct (map p_id [saved_front_desk])" by simp
  from reload_resets_status[of "[saved_front_desk]", THEN conjunct2, THEN conjunct2] d
  have "\<forall>p\<in>set [saved_front_desk].
          \<exists>pr. map_of (printers (new_manager (Saved [saved_front_desk]))) (p_id p) = Some pr
             \<and> printer_objs (new_manager (Saved [saved_front_desk])) ! pr = p\<lparr>p_status := Disconnected\<rparr>"
    by (rule mp)
  then obtain pr where pr:
    "map_of (printers (new_manager (Saved [saved_front_desk]))) (p_id saved_front_desk) = Some pr"
    "printer_objs (new_manager (Saved [saved_front_desk])) ! pr = saved_front_desk\<lparr>p_status := Disconnected\<rparr>"
    by auto
  have "pr = 0" using pr(1) m by (simp add: saved_front_desk_def)
  then have o: "printer_objs (new_manager (Saved [saved_front_desk])) ! 0
       = saved_front_desk\<lparr>p_status := Disconnected\<rparr>" using pr(2) by simp
  have c: "p_config (saved_front_desk\<lparr>p_status := Disconnected\<rparr>) = front_desk"
    "p_status (saved_front_desk\<lparr>p_status := Disconnected\<rparr>) = Disconnected"
    "p_status saved_front_desk = Connected"
    by (simp_all add: saved_front_desk_def)
  show ?thesis using m d o c by simp
qed

section \<open>Registering a printer\<close>

lemma dec_17: "dec 17 = ''17''"
  by (simp add: dec.simps)

text \<open>
  C7, as amended. \<^verbatim>\<open>addPrinter\<close> checks no field of the configuration and cannot fail.
  It returns the id made of the type, the clock and the random text, registers under it
  a new printer object with status \<^verbatim>\<open>disconnected\<close> and the given configuration, and
  leaves every other id's entry, every existing object and the connections as they
  were. The id is new exactly when no printer is registered under that text yet.
\<close>

theorem addPrinter_registers:
  "fst (addPrinter config now rnd s) = printer_id config now rnd
   \<and> map_of (printers (snd (addPrinter config now rnd s))) (printer_id config now rnd)
       = Some (length (printer_objs s))
   \<and> printer_objs (snd (addPrinter config now rnd s)) ! length (printer_objs s)
       = \<lparr>p_id = printer_id config now rnd, p_name = cfg_name config, p_type = cfg_type config,
          p_status = Disconnected, p_lastUsed = None, p_config = config\<rparr>
   \<and> (\<forall>pid. pid \<noteq> printer_id config now rnd \<longrightarrow>
          map_of (printers (snd (addPrinter config now rnd s))) pid = map_of (printers s) pid)
   \<and> (\<forall>pr < length (printer_objs s).
          printer_objs (snd (addPrinter config now rnd s)) ! pr = printer_objs s ! pr)
   \<and> connections (snd (addPrinter config now rnd s)) = connections s
   \<and> conn_objs (snd (addPrinter config now rnd s)) = conn_objs s"
  by (simp add: addPrinter_def Let_def emit_def savePrinters_def update_conv' nth_append
           split: storage.splits)

theorem addPrinter_registers_witness:
  "''usb_17_k3x'' \<noteq> printer_id front_desk 17 ''k3x''
   \<and> fst (addPrinter front_desk 17 ''k3x'' (new_manager (Saved [saved_front_desk])))
       = ''network_17_k3x''
   \<and> map_of (printers (snd (addPrinter front_desk 17 ''k3x'' (new_manager NoItem)))) ''usb_17_k3x''
       = None
   \<and> p_status (printer_objs (snd (addPrinter front_desk 17 ''k3x'' (new_manager NoItem))) ! 0)
       = Disconnected"
proof -
  have i: "printer_id front_desk 17 ''k3x'' = ''network_17_k3x''"
    by (simp add: printer_id_def front_desk_def dec.simps)
  note t = addPrinter_registers[of front_desk 17 "''k3x''" "new_manager NoItem"]
  note u = addPrinter_registers[of front_desk 17 "''k3x''" "new_manager (Saved [saved_front_desk])"]
  have z: "length (printer_objs (new_manager NoItem)) = 0"
    "map_of (printers (new_manager NoItem)) ''usb_17_k3x'' = None"
    by (simp_all add: new_manager_def loadSavedPrinters_def)
  have a: "fst (addPrinter front_desk 17 ''k3x'' (new_manager (Saved [saved_front_desk])))
       = ''network_17_k3x''" using u i by simp
  have b: "map_of (printers (snd (addPrinter front_desk 17 ''k3x'' (new_manager NoItem)))) ''usb_17_k3x''
       = None"
    using t[THEN conjunct2, THEN conjunct2, THEN conjunct2, THEN conjunct1, rule_format, of "''usb_17_k3x''"]
      i z by simp
  have c: "p_status (printer_objs (snd (addPrinter front_desk 17 ''k3x'' (new_manager NoItem))) ! 0)
       = Disconnected"
    using t[THEN conjunct2, THEN conjunct2, THEN conjunct1] z by simp
  show ?thesis using i a b c by simp
qed

text \<open>
  The claim fails twice: a network configuration without host and port is registered,
  and a second call at the same clock value with the same random text gets the same id,
  which replaces the first registration.
\<close>

theorem addPrinter_unvalidated_counterexample:
  "ipAddress no_host = None \<and> port no_host = None \<and> cfg_type no_host = Network
   \<and> fst (addPrinter no_host 17 ''k3x'' (new_manager NoItem)) = ''network_17_k3x''
   \<and> map_of (printers (snd (addPrinter no_host 17 ''k3x'' (new_manager NoItem)))) ''network_17_k3x''
       = Some 0
   \<and> fst (addPrinter front_desk 17 ''k3x'' (snd (addPrinter no_host 17 ''k3x'' (new_manager NoItem))))
       = ''network_17_k3x''
   \<and> map_of (printers (snd (addPrinter front_desk 17 ''k3x''
         (snd (addPrinter no_host 17 ''k3x'' (new_manager NoItem)))))) ''network_17_k3x'' = Some 1
   \<and> length (printers (snd (addPrinter front_desk 17 ''k3x''
         (snd (addPrinter no_host 17 ''k3x'' (new_manager NoItem)))))) = 1"
  by (simp add: addPrinter_def Let_def printer_id_def no_host_def front_desk_def dec.simps
        new_manager_def loadSavedPrinters_def savePrinters_def emit_def)

section \<open>Observing the print queue\<close>

lemma emit_arrays [simp]:
  "printQueue (emit e s) = printQueue s" "array_objs (emit e s) = array_objs s"
  by (simp_all add: emit_def)

lemma savePrinters_arrays [simp]:
  "printQueue (savePrinters s) = printQueue s" "array_objs (savePrinters s) = array_objs s"
  by (simp_all add: savePrinters_def split: storage.splits)

lemma upd_arrays [simp]:
  "printQueue (upd_printer pr f s) = printQueue s" "array_objs (upd_printer pr f s) = array_objs s"
  "printQueue (upd_job j g s) = printQueue s" "array_objs (upd_job j g s) = array_objs s"
  "printQueue (upd_conn r h s) = printQueue s" "array_objs (upd_conn r h s) = array_objs s"
  by (simp_all add: upd_printer_def upd_job_def upd_conn_def)

lemma set_queue_arrays [simp]:
  "printQueue (set_queue q s) = printQueue s"
  "length (array_objs (set_queue q s)) = length (array_objs s)"
  by (simp_all add: set_queue_def)

lemma load_one_arrays [simp]:
  "printQueue (load_one s p) = printQueue s" "array_objs (load_one s p) = array_objs s"
  by (simp_all add: load_one_def)

lemma foldl_load_arrays [simp]:
  "printQueue (foldl load_one s ps) = printQueue s" "array_objs (foldl load_one s ps) = array_objs s"
  by (induction ps rule: rev_induct) simp_all

lemma queue_allocated_new: "queue_allocated (new_manager st)"
  by (simp add: queue_allocated_def new_manager_def loadSavedPrinters_def split: storage.splits)

lemma disconnect_begin_arrays [simp]:
  "printQueue (snd (disconnect_begin pid s)) = printQueue s"
  "array_objs (snd (disconnect_begin pid s)) = array_objs s"
  by (simp_all add: disconnect_begin_def conn_disconnect_def split: option.splits)

lemma queue_allocated_step:
  assumes q: "queue_allocated s"
  shows "queue_allocated (step s a)"
proof (cases a)
  case (AddPrinter config now rnd)
  then show ?thesis using q by (simp add: queue_allocated_def addPrinter_def Let_def)
next
  case (RemovePrinter pid)
  then show ?thesis using q by (simp add: queue_allocated_def removePrinter_def Let_def split: option.splits)
next
  case (SetActivePrinter pid)
  then show ?thesis using q by (simp add: queue_allocated_def setActivePrinter_def)
next
  case (ConnectBegin pid)
  then show ?thesis using q by (simp add: queue_allocated_def connect_begin_def Let_def split: option.splits)
next
  case (ConnectFinish r outcome now)
  then show ?thesis using q
    by (simp add: queue_allocated_def connect_finish_def Let_def split: option.splits prod.splits)
next
  case (DisconnectBegin pid)
  then show ?thesis using q by (simp add: queue_allocated_def)
next
  case (DisconnectFinish pid pr)
  then show ?thesis using q by (simp add: queue_allocated_def disconnect_finish_def Let_def)
next
  case (PrintBegin data printerId now rnd stamp)
  then show ?thesis using q
    by (simp add: queue_allocated_def print_begin_def Let_def split: option.splits)
next
  case (PrintFinish j outcome fin)
  then show ?thesis using q
    by (simp add: queue_allocated_def print_finish_def Let_def split: option.splits prod.splits)
next
  case GetPrintQueue
  then show ?thesis using q by (simp add: queue_allocated_def getPrintQueue_def)
next
  case ClearPrintQueue
  then show ?thesis using q by (simp add: queue_allocated_def clearPrintQueue_def)
next
  case (RemovePrintJob jobId)
  then show ?thesis using q by (simp add: queue_allocated_def removePrintJob_def split: option.splits)
next
  case (LinkDown r)
  then show ?thesis using q by (simp add: queue_allocated_def link_down_def)
qed

lemma queue_allocated_run: "queue_allocated s \<Longrightarrow> queue_allocated (run s acts)"
  unfolding run_def by (induction acts arbitrary: s) (simp_all add: queue_allocated_step)

text \<open>
  C10. In every state the manager can be in, \<^verbatim>\<open>getPrintQueue\<close> returns an array that is
  not the manager's queue array and holds the same job references in the same order;
  the call changes neither the queue nor the jobs nor what has been emitted; and
  whatever the caller then puts into the returned array or takes out of it, the
  manager's queue holds what it held.
\<close>

theorem getPrintQueue_fresh_copy:
  "fst (getPrintQueue (run (new_manager st) acts))
     \<noteq> printQueue (snd (getPrintQueue (run (new_manager st) acts)))
   \<and> array_objs (snd (getPrintQueue (run (new_manager st) acts)))
        ! fst (getPrintQueue (run (new_manager st) acts))
      = queue (run (new_manager st) acts)
   \<and> queue (snd (getPrintQueue (run (new_manager st) acts))) = queue (run (new_manager st) acts)
   \<and> printQueue (snd (getPrintQueue (run (new_manager st) acts)))
      = printQueue (run (new_manager st) acts)
   \<and> job_objs (snd (getPrintQueue (run (new_manager st) acts)))
      = job_objs (run (new_manager st) acts)
   \<and> emitted (snd (getPrintQueue (run (new_manager st) acts)))
      = emitted (run (new_manager st) acts)
   \<and> (\<forall>xs. queue (array_mutate (fst (getPrintQueue (run (new_manager st) acts))) xs
                   (snd (getPrintQueue (run (new_manager st) acts))))
            = queue (run (new_manager st) acts))"
proof -
  let ?s = "run (new_manager st) acts"
  have a: "printQueue ?s < length (array_objs ?s)"
    using queue_allocated_run[OF queue_allocated_new] by (simp add: queue_allocated_def)
  show ?thesis using a
    by (simp add: getPrintQueue_def queue_def array_mutate_def nth_append)
qed

section \<open>Sends that are rejected\<close>



section \<open>Disconnecting\<close>

lemma disconnect_without_connection:
  "map_of (printers s) pid = None \<or> map_of (connections s) pid = None \<Longrightarrow>
   disconnect_begin pid s = (False, s) \<and> disconnectPrinter pid s = s"
  by (auto simp: disconnect_begin_def disconnectPrinter_def split: option.splits)

lemma disconnectPrinter_removes:
  "map_of (printers s) pid = Some pr \<Longrightarrow> map_of (connections s) pid = Some r \<Longrightarrow>
   map_of (connections (disconnectPrinter pid s)) pid = None"
  by (simp add: disconnectPrinter_def disconnect_begin_def disconnect_finish_def Let_def
        conn_disconnect_def upd_conn_def upd_printer_def emit_def delete_conv')

text \<open>
  C6. \<^verbatim>\<open>disconnectPrinter\<close> cannot fail. For an id without a registered connection (or
  without a registered printer), which is how a disconnected printer stands, the call
  has nothing to await and leaves the whole state as it was: the printers, the
  connection map, every status. And for every state, two calls in a row end in the state
  that one call ends in.
\<close>

theorem disconnect_noop_idempotent:
  "(map_of (printers s) pid = None \<or> map_of (connections s) pid = None \<longrightarrow>
      disconnect_begin pid s = (False, s) \<and> disconnectPrinter pid s = s)
   \<and> disconnectPrinter pid (disconnectPrinter pid s) = disconnectPrinter pid s"
proof (cases "map_of (printers s) pid = None \<or> map_of (connections s) pid = None")
  case True
  then show ?thesis using disconnect_without_connection[of s pid] by simp
next
  case False
  then obtain pr r where "map_of (printers s) pid = Some pr" "map_of (connections s) pid = Some r"
    by auto
  then have "map_of (connections (disconnectPrinter pid s)) pid = None"
    by (rule disconnectPrinter_removes)
  then have "disconnectPrinter pid (disconnectPrinter pid s) = disconnectPrinter pid s"
    using disconnect_without_connection[of "disconnectPrinter pid s" pid] by simp
  then show ?thesis using False by blast
qed

theorem disconnect_noop_idempotent_witness:
  "p_status (printer_objs (run (new_manager NoItem) [AddPrinter front_desk 17 ''k3x'']) ! 0)
     = Disconnected
   \<and> map_of (printers (run (new_manager NoItem) [AddPrinter front_desk 17 ''k3x'']))
       ''network_17_k3x'' = Some 0
   \<and> map_of (connections (run (new_manager NoItem) [AddPrinter front_desk 17 ''k3x'']))
       ''network_17_k3x'' = None
   \<and> disconnect_begin ''network_17_k3x'' (run (new_manager NoItem) [AddPrinter front_desk 17 ''k3x''])
       = (False, run (new_manager NoItem) [AddPrinter front_desk 17 ''k3x''])
   \<and> disconnectPrinter ''network_17_k3x'' (run (new_manager NoItem) [AddPrinter front_desk 17 ''k3x''])
       = run (new_manager NoItem) [AddPrinter front_desk 17 ''k3x'']"
proof -
  let ?s = "run (new_manager NoItem) [AddPrinter front_desk 17 ''k3x'']"
  have a: "p_status (printer_objs ?s ! 0) = Disconnected"
    "map_of (printers ?s) ''network_17_k3x'' = Some 0"
    "map_of (connections ?s) ''network_17_k3x'' = None"
    by (simp_all add: manager_eval)
  show ?thesis
    using disconnect_noop_idempotent[of ?s "''network_17_k3x''", THEN conjunct1] a by simp
qed

section \<open>The life of a print job\<close>



lemma same_jobs_refl: "same_jobs s s"
  by (simp add: same_jobs_def)

lemma emit_jobs [simp]:
  "job_objs (emit e s) = job_objs s" "awaiting_print (emit e s) = awaiting_print s"
  "wire (emit e s) = wire s" "emitted (emit e s) = emitted s @ [e]"
  by (simp_all add: emit_def)

lemma savePrinters_jobs [simp]:
  "job_objs (savePrinters s) = job_objs s" "awaiting_print (savePrinters s) = awaiting_print s"
  "wire (savePrinters s) = wire s" "emitted (savePrinters s) = emitted s"
  by (simp_all add: savePrinters_def split: storage.splits)

lemma upd_printer_jobs [simp]:
  "job_objs (upd_printer pr f s) = job_objs s" "awaiting_print (upd_printer pr f s) = awaiting_print s"
  "wire (upd_printer pr f s) = wire s" "emitted (upd_printer pr f s) = emitted s"
  by (simp_all add: upd_printer_def)

lemma upd_conn_jobs [simp]:
  "job_objs (upd_conn r f s) = job_objs s" "awaiting_print (upd_conn r f s) = awaiting_print s"
  "wire (upd_conn r f s) = wire s" "emitted (upd_conn r f s) = emitted s"
  by (simp_all add: upd_conn_def)

lemma set_queue_jobs [simp]:
  "job_objs (set_queue q s) = job_objs s" "awaiting_print (set_queue q s) = awaiting_print s"
  "wire (set_queue q s) = wire s" "emitted (set_queue q s) = emitted s"
  by (simp_all add: set_queue_def)

lemma load_one_jobs [simp]:
  "job_objs (load_one s p) = job_objs s" "awaiting_print (load_one s p) = awaiting_print s"
  "wire (load_one s p) = wire s" "emitted (load_one s p) = emitted s"
  by (simp_all add: load_one_def)

lemma foldl_load_jobs [simp]:
  "job_objs (foldl load_one s ps) = job_objs s" "awaiting_print (foldl load_one s ps) = awaiting_print s"
  "wire (foldl load_one s ps) = wire s" "emitted (foldl load_one s ps) = emitted s"
  by (induction ps rule: rev_induct) simp_all















section \<open>At most one session per printer\<close>




lemma emit_core [simp]:
  "printers (emit e s) = printers s" "connections (emit e s) = connections s"
  "awaiting_connect (emit e s) = awaiting_connect s"
  "awaiting_disconnect (emit e s) = awaiting_disconnect s"
  "printer_objs (emit e s) = printer_objs s" "conn_objs (emit e s) = conn_objs s"
  by (simp_all add: emit_def)

lemma savePrinters_core [simp]:
  "printers (savePrinters s) = printers s" "connections (savePrinters s) = connections s"
  "awaiting_connect (savePrinters s) = awaiting_connect s"
  "awaiting_disconnect (savePrinters s) = awaiting_disconnect s"
  "printer_objs (savePrinters s) = printer_objs s" "conn_objs (savePrinters s) = conn_objs s"
  by (simp_all add: savePrinters_def split: storage.splits)

lemma set_queue_core [simp]:
  "printers (set_queue q s) = printers s" "connections (set_queue q s) = connections s"
  "awaiting_connect (set_queue q s) = awaiting_connect s"
  "awaiting_disconnect (set_queue q s) = awaiting_disconnect s"
  "printer_objs (set_queue q s) = printer_objs s" "conn_objs (set_queue q s) = conn_objs s"
  by (simp_all add: set_queue_def)

lemma upd_job_core [simp]:
  "printers (upd_job j f s) = printers s" "connections (upd_job j f s) = connections s"
  "awaiting_connect (upd_job j f s) = awaiting_connect s"
  "awaiting_disconnect (upd_job j f s) = awaiting_disconnect s"
  "printer_objs (upd_job j f s) = printer_objs s" "conn_objs (upd_job j f s) = conn_objs s"
  by (simp_all add: upd_job_def)

lemma upd_printer_core [simp]:
  "printers (upd_printer pr f s) = printers s" "connections (upd_printer pr f s) = connections s"
  "awaiting_connect (upd_printer pr f s) = awaiting_connect s"
  "awaiting_disconnect (upd_printer pr f s) = awaiting_disconnect s"
  "length (printer_objs (upd_printer pr f s)) = length (printer_objs s)"
  "conn_objs (upd_printer pr f s) = conn_objs s"
  by (simp_all add: upd_printer_def)


lemma upd_conn_core [simp]:
  "printers (upd_conn r f s) = printers s" "connections (upd_conn r f s) = connections s"
  "awaiting_connect (upd_conn r f s) = awaiting_connect s"
  "awaiting_disconnect (upd_conn r f s) = awaiting_disconnect s"
  "printer_objs (upd_conn r f s) = printer_objs s"
  "length (conn_objs (upd_conn r f s)) = length (conn_objs s)"
  by (simp_all add: upd_conn_def)
































subsection \<open>The claim\<close>




text \<open>
  Why the condition also speaks of disconnect calls: two \<^verbatim>\<open>disconnectPrinter\<close> calls for a
  connected printer overlap, and the printer is connected again between their
  resumptions. The second resumption deletes the new entry of the connection map and
  sets the status to \<^verbatim>\<open>disconnected\<close> while the new connection object stays live; the next
  connect call, made while no other connect call is in flight, makes another one.
\<close>

lemma overlapping_disconnects_leave_session:
  "live_sessions (run (new_manager NoItem)
       [AddPrinter front_desk 17 ''k3x'', ConnectBegin ''network_17_k3x'', ConnectFinish 0 None 20,
        DisconnectBegin ''network_17_k3x'', DisconnectBegin ''network_17_k3x'',
        DisconnectFinish ''network_17_k3x'' 0,
        ConnectBegin ''network_17_k3x'', ConnectFinish 1 None 30,
        DisconnectFinish ''network_17_k3x'' 0,
        ConnectBegin ''network_17_k3x'', ConnectFinish 2 None 40])
       ''network_17_k3x'' = [1, 2]"
  by (simp add: manager_eval live_sessions_def disconnect_begin_def disconnect_finish_def
      conn_disconnect_def delete_conv')

section \<open>USB: a device whose interfaces cannot be claimed\<close>

lemma claim_declared_none:
  assumes "\<forall>j. k \<le> j \<and> j < k + length ifaces \<longrightarrow> cf j \<noteq> None"
  shows "fst (claim_declared cf k ifaces) = None \<and> snd (claim_declared cf k ifaces) \<le> k + length ifaces"
  using assms
proof (induction ifaces arbitrary: k)
  case Nil
  then show ?case by simp
next
  case (Cons iface ifaces)
  show ?case
  proof (cases "claimed iface")
    case True
    have "\<forall>j. k \<le> j \<and> j < k + length ifaces \<longrightarrow> cf j \<noteq> None" using Cons.prems by simp
    from Cons.IH[OF this] show ?thesis using True by simp
  next
    case False
    have "cf k \<noteq> None" using Cons.prems by simp
    then obtain m where m: "cf k = Some m" by blast
    have "\<forall>j. Suc k \<le> j \<and> j < Suc k + length ifaces \<longrightarrow> cf j \<noteq> None" using Cons.prems by simp
    from Cons.IH[OF this] show ?thesis using False m by simp
  qed
qed

lemma claim_numbers_none:
  assumes "\<forall>j. k \<le> j \<and> j < k + length ns \<longrightarrow> cf j \<noteq> None"
  shows "fst (claim_numbers cf k ns) = None"
  using assms
proof (induction ns arbitrary: k)
  case Nil
  then show ?case by simp
next
  case (Cons n ns)
  have "cf k \<noteq> None" using Cons.prems by simp
  then obtain m where m: "cf k = Some m" by blast
  have "\<forall>j. Suc k \<le> j \<and> j < Suc k + length ns \<longrightarrow> cf j \<noteq> None" using Cons.prems by simp
  from Cons.IH[OF this] show ?case using m by simp
qed

text \<open>The interfaces the first loop goes through: those of the active configuration.\<close>

lemma usb_converse_unclaimable:
  assumes "picked env = Inr dev0" "open_fails env = None"
    "configuration dev0 = None \<longrightarrow> select_result env = Inr ifaces"
    "configuration dev0 \<noteq> None \<longrightarrow> configuration dev0 = Some ifaces"
    "\<forall>k < length ifaces + 3. claim_fails env k \<noteq> None"
  shows "usb_converse env =
     (Inl (Error ''Could not claim any interface''),
      Some (dev0\<lparr>opened := True, configuration := Some ifaces\<rparr>))"
proof -
  let ?cf = "claim_fails env"
  have "\<forall>j. 0 \<le> j \<and> j < 0 + length ifaces \<longrightarrow> ?cf j \<noteq> None" using assms(5) by simp
  from claim_declared_none[OF this]
  have d: "fst (claim_declared ?cf 0 ifaces) = None" "snd (claim_declared ?cf 0 ifaces) \<le> length ifaces"
    by simp_all
  let ?k = "snd (claim_declared ?cf 0 ifaces)"
  have "\<forall>j. ?k \<le> j \<and> j < ?k + length [0, 1, 2::nat] \<longrightarrow> ?cf j \<noteq> None"
    using assms(5) d(2) by simp
  from claim_numbers_none[OF this]
  have n: "fst (claim_numbers ?cf ?k [0, 1, 2]) = None" .
  show ?thesis
  proof (cases "configuration dev0")
    case None
    then show ?thesis using assms(1,2,3) d n
      by (simp add: usb_converse_def Let_def del: claim_numbers.simps claim_declared.simps)
  next
    case (Some cfg)
    then have "cfg = ifaces" using assms(4) by simp
    then show ?thesis using Some assms(1,2) d n
      by (simp add: usb_converse_def Let_def del: claim_numbers.simps claim_declared.simps)
  qed
qed

text \<open>
  C5, as amended. A USB \<^verbatim>\<open>connect()\<close> in which the user picks a device, the device opens
  (and, having no active configuration, gets one), and every call of \<^verbatim>\<open>claimInterface\<close>
  is refused: the call fails with \<^verbatim>\<open>Could not claim any interface\<close> and writes that into
  the status text, on whatever the object is by then; it stores no reference to the
  device and does not mark the object connected; the device has no interface claimed
  that was not claimed before, and is open. A \<^verbatim>\<open>disconnect()\<close> on the object, which holds
  no reference to the device, leaves the device open.
\<close>

theorem usb_connect_unclaimable:
  assumes "picked env = Inr dev0" "open_fails env = None"
    "configuration dev0 = None \<longrightarrow> select_result env = Inr ifaces"
    "configuration dev0 \<noteq> None \<longrightarrow> configuration dev0 = Some ifaces"
    "\<forall>k < length ifaces + 3. claim_fails env k \<noteq> None"
  shows "usb_connect env (c, world) =
     (Inl (Error ''Could not claim any interface''),
      c\<lparr>usb_currentStatus := ''Error: Could not claim any interface''\<rparr>,
      world @ [dev0\<lparr>opened := True, configuration := Some ifaces\<rparr>])
   \<and> usb_connect_settle (Inl (Error ''Could not claim any interface'')) c'
       = (Inl (Error ''Could not claim any interface''),
          c'\<lparr>usb_currentStatus := ''Error: Could not claim any interface''\<rparr>)
   \<and> usb_disconnect close_fails
        (c\<lparr>device := None, usb_currentStatus := ''Error: Could not claim any interface''\<rparr>,
         world @ [dev0\<lparr>opened := True, configuration := Some ifaces\<rparr>])
       = (c\<lparr>device := None, usb_isConnectedFlag := False, usb_currentStatus := ''Disconnected''\<rparr>,
          world @ [dev0\<lparr>opened := True, configuration := Some ifaces\<rparr>])"
  using usb_converse_unclaimable[OF assms]
  by (simp add: usb_connect_def usb_connect_begin_def usb_connect_settle_def usb_disconnect_def Let_def)

theorem usb_connect_unclaimable_witness:
  "picked busy_printer
     = Inr \<lparr>opened = False, configuration = Some [\<lparr>interfaceNumber = 0, claimed = False\<rparr>]\<rparr>
   \<and> open_fails busy_printer = None
   \<and> claim_fails busy_printer 0 = Some ''Unable to claim interface.''
   \<and> claim_fails busy_printer 1 = Some ''Unable to claim interface.''
   \<and> claim_fails busy_printer 2 = Some ''Unable to claim interface.''
   \<and> claim_fails busy_printer 3 = Some ''Unable to claim interface.''
   \<and> fst (usb_connect busy_printer (fresh_usb, [])) = Inl (Error ''Could not claim any interface'')
   \<and> device (fst (snd (usb_connect busy_printer (fresh_usb, [])))) = None
   \<and> \<not> usb_isConnectedFlag (fst (snd (usb_connect busy_printer (fresh_usb, []))))
   \<and> usb_currentStatus (fst (snd (usb_connect busy_printer (fresh_usb, []))))
       = ''Error: Could not claim any interface''
   \<and> configuration (snd (snd (usb_connect busy_printer (fresh_usb, []))) ! 0)
       = Some [\<lparr>interfaceNumber = 0, claimed = False\<rparr>]"
proof -
  let ?dev = "\<lparr>opened = False, configuration = Some [\<lparr>interfaceNumber = 0, claimed = False\<rparr>]\<rparr>"
  let ?ifs = "[\<lparr>interfaceNumber = 0, claimed = False\<rparr>]"
  have a: "picked busy_printer = Inr ?dev" "open_fails busy_printer = None"
    "configuration ?dev = None \<longrightarrow> select_result busy_printer = Inr ?ifs"
    "configuration ?dev \<noteq> None \<longrightarrow> configuration ?dev = Some ?ifs"
    by (simp_all add: busy_printer_def)
  have b: "\<forall>k < length ?ifs + 3. claim_fails busy_printer k \<noteq> None"
  proof (intro allI impI)
    fix k :: nat assume "k < length ?ifs + 3"
    then have "k = 0 \<or> k = 1 \<or> k = 2 \<or> k = 3" by auto
    then show "claim_fails busy_printer k \<noteq> None" by (auto simp: busy_printer_def)
  qed
  show ?thesis
    using usb_connect_unclaimable[OF a b, of fresh_usb "[]" fresh_usb None] a(1,2)
    by (simp add: fresh_usb_def) (simp add: busy_printer_def)
qed

text \<open>
  The claim fails on the device handle: after the failed \<^verbatim>\<open>connect()\<close> the device is
  open, the object holds no reference to it, and \<^verbatim>\<open>disconnect()\<close> does not close it.
\<close>

theorem usb_connect_leaves_device_open_counterexample:
  "fst (usb_connect busy_printer (fresh_usb, [])) = Inl (Error ''Could not claim any interface'')
   \<and> device (fst (snd (usb_connect busy_printer (fresh_usb, [])))) = None
   \<and> opened (snd (snd (usb_connect busy_printer (fresh_usb, []))) ! 0)
   \<and> opened (snd (usb_disconnect None (snd (usb_connect busy_printer (fresh_usb, [])))) ! 0)"
  by (simp add: usb_connect_def usb_connect_begin_def usb_connect_settle_def usb_converse_def
      usb_disconnect_def busy_printer_def fresh_usb_def Let_def)

section \<open>Network: relay failures\<close>

text \<open>
  C3, as amended. On a connection that is marked connected and whose relay socket is
  open, the driver's send succeeds once the frame is handed to the socket, whatever the
  relay's TCP socket then meets; the relay reports a socket error to the client with the
  error's own message and a timeout as \<^verbatim>\<open>Connection timeout\<close>; the driver reads no
  message of the relay, so the report changes nothing in it. The driver's send fails in
  two cases only: it is not marked connected, or its socket is not open and both HTTP
  requests reject, and then it fails with the second request's error.
\<close>

theorem network_send_ignores_relay:
  "(net_isConnectedFlag c \<and> socket c = Some OPEN \<longrightarrow>
      send_through_relay c fetch1 fetch2 data events = (Inr (), relay_session True events, c))
   \<and> relay_on True (SockError m) = [ErrorMessage m]
   \<and> relay_on True SockTimeout = [ErrorMessage ''Connection timeout'']
   \<and> net_on_message msg c = c
   \<and> (\<forall>e. fst (net_print c fetch1 fetch2 data) = Inl e \<longleftrightarrow>
          (\<not> net_isConnectedFlag c \<and> e = Error ''Network printer not connected'')
          \<or> (net_isConnectedFlag c \<and> socket c \<noteq> Some OPEN \<and> fetch1 \<noteq> None
              \<and> fetch2 = Some (message e)))"
proof -
  have a: "net_isConnectedFlag c \<and> socket c = Some OPEN \<longrightarrow>
      send_through_relay c fetch1 fetch2 data events = (Inr (), relay_session True events, c)"
  proof
    assume h: "net_isConnectedFlag c \<and> socket c = Some OPEN"
    have f: "foldl (\<lambda>c m. net_on_message m c) c ms = c" for ms
      by (induction ms) (simp_all add: net_on_message_def)
    show "send_through_relay c fetch1 fetch2 data events = (Inr (), relay_session True events, c)"
      using h by (simp add: send_through_relay_def net_print_def f)
  qed
  have b: "\<forall>e. fst (net_print c fetch1 fetch2 data) = Inl e \<longleftrightarrow>
          (\<not> net_isConnectedFlag c \<and> e = Error ''Network printer not connected'')
          \<or> (net_isConnectedFlag c \<and> socket c \<noteq> Some OPEN \<and> fetch1 \<noteq> None
              \<and> fetch2 = Some (message e))"
  proof
    fix e show "fst (net_print c fetch1 fetch2 data) = Inl e \<longleftrightarrow>
          (\<not> net_isConnectedFlag c \<and> e = Error ''Network printer not connected'')
          \<or> (net_isConnectedFlag c \<and> socket c \<noteq> Some OPEN \<and> fetch1 \<noteq> None
              \<and> fetch2 = Some (message e))"
      by (cases e) (auto simp: net_print_def split: option.splits)
  qed
  show ?thesis using a b by (simp add: net_on_message_def)
qed

theorem network_send_ignores_relay_witness:
  "net_isConnectedFlag relay_open \<and> socket relay_open = Some OPEN
   \<and> send_through_relay relay_open None None [27, 64] [SockTimeout, SockClose]
       = (Inr (), [ErrorMessage ''Connection timeout'', Status ''Print job completed''], relay_open)
   \<and> fst (net_print (relay_open\<lparr>socket := Some CLOSING\<rparr>) (Some ''Failed to fetch'')
            (Some ''Failed to fetch'') [27, 64]) = Inl (Error ''Failed to fetch'')"
proof -
  have h: "net_isConnectedFlag relay_open \<and> socket relay_open = Some OPEN"
    by (simp add: relay_open_def)
  have a: "send_through_relay relay_open None None [27, 64] [SockTimeout, SockClose]
       = (Inr (), [ErrorMessage ''Connection timeout'', Status ''Print job completed''], relay_open)"
    using network_send_ignores_relay[of relay_open None None "[27, 64]" "[SockTimeout, SockClose]",
        THEN conjunct1] h
    by (simp add: relay_session_def)
  have b: "fst (net_print (relay_open\<lparr>socket := Some CLOSING\<rparr>) (Some ''Failed to fetch'')
            (Some ''Failed to fetch'') [27, 64]) = Inl (Error ''Failed to fetch'')"
    using network_send_ignores_relay[of "relay_open\<lparr>socket := Some CLOSING\<rparr>"
        "Some ''Failed to fetch''" "Some ''Failed to fetch''" "[27, 64]" "[]" "''x''" "Status []",
        THEN conjunct2, THEN conjunct2, THEN conjunct2, THEN conjunct2, rule_format,
        of "Error ''Failed to fetch''"]
    by (simp add: relay_open_def)
  show ?thesis using h a b by (intro conjI) simp_all
qed

text \<open>
  The claim fails when the printer refuses the relay's connection: the relay reports
  the error, and the driver's send has succeeded.
\<close>

theorem network_relay_refused_counterexample:
  "send_through_relay relay_open None None [27, 64]
     [SockError ''connect ECONNREFUSED 192.168.1.100:9100'', SockClose]
   = (Inr (),
      [ErrorMessage ''connect ECONNREFUSED 192.168.1.100:9100'', Status ''Print job completed''],
      relay_open)"
  by (simp add: send_through_relay_def net_print_def relay_session_def net_on_message_def
      relay_open_def)

section \<open>Bluetooth: the chunked send\<close>

lemma chunk_of_bt_call: "chunk_of (bt_call props c) = c"
  by (simp add: bt_call_def)

lemma ceil_div_step:
  assumes "i < n" "0 < (c::nat)"
  shows "(n - i + c - 1) div c = Suc ((n - (i + c) + c - 1) div c)"
proof -
  define d where "d = n - i"
  have d: "0 < d" using assms(1) by (simp add: d_def)
  have e: "n - (i + c) = d - c" by (simp add: d_def)
  have l: "(d + c - 1) div c = Suc ((d - 1) div c)"
  proof -
    have "d + c - 1 = (d - 1) + c" using d by arith
    then have "(d + c - 1) div c = ((d - 1) + c) div c" by (rule arg_cong)
    also have "\<dots> = Suc ((d - 1) div c)" using assms(2) div_add_self2[of c "d - 1"] by simp
    finally show ?thesis .
  qed
  have r: "(d - c + c - 1) div c = (d - 1) div c"
  proof (cases "c \<le> d")
    case True
    then show ?thesis by simp
  next
    case False
    then have "d - c + c - 1 = c - 1" by simp
    then have "(d - c + c - 1) div c = (c - 1) div c" by (rule arg_cong)
    moreover have "(c - 1) div c = 0" using assms(2) by simp
    moreover have "(d - 1) div c = 0" using False by simp
    ultimately show ?thesis by (simp only:)
  qed
  show ?thesis unfolding d_def[symmetric] e using l r by (simp only:)
qed

lemma take_chunk_drop: "take c (drop i xs) @ drop (i + c) xs = drop i xs"
  by (metis add.commute append_take_drop_id drop_drop)

lemma take_chunk_more:
  "take c (drop i xs) @ take n (drop (i + c) xs) = take (c + n) (drop i xs)"
proof -
  have "take (c + n) (drop i xs) = take c (drop i xs) @ take n (drop c (drop i xs))"
    by (rule take_add)
  then show ?thesis by (simp add: add.commute)
qed

lemma bt_loop_done:
  "\<not> i < length data \<Longrightarrow> bt_print_loop chr wr data i issued = (Inr (), issued)"
  by (subst bt_print_loop.simps) simp

lemma bt_loop_null:
  "i < length data \<Longrightarrow> chr (length issued) = None \<Longrightarrow>
   bt_print_loop chr wr data i issued = (Inl (Error null_read_message), issued)"
  by (subst bt_print_loop.simps) simp

lemma bt_loop_unwritable:
  "i < length data \<Longrightarrow> chr (length issued) = Some ch \<Longrightarrow> \<not> bt_writable (properties ch) \<Longrightarrow>
   bt_print_loop chr wr data i issued =
     (Inl (Error ''Characteristic does not support writing''), issued)"
  by (subst bt_print_loop.simps) (simp add: bt_writable_def)

lemma bt_loop_step_ok:
  "i < length data \<Longrightarrow> chr (length issued) = Some ch \<Longrightarrow> bt_writable (properties ch) \<Longrightarrow>
   wr (length issued) = None \<Longrightarrow>
   bt_print_loop chr wr data i issued =
     bt_print_loop chr wr data (i + chunkSize)
       (issued @ [bt_call (properties ch) (take chunkSize (drop i data))])"
  by (subst bt_print_loop.simps) (auto simp: bt_writable_def bt_call_def)

lemma bt_loop_step_fail:
  "i < length data \<Longrightarrow> chr (length issued) = Some ch \<Longrightarrow> bt_writable (properties ch) \<Longrightarrow>
   wr (length issued) = Some m \<Longrightarrow>
   bt_print_loop chr wr data i issued =
     (Inl (Error m), issued @ [bt_call (properties ch) (take chunkSize (drop i data))])"
  by (subst bt_print_loop.simps) (auto simp: bt_writable_def bt_call_def)

lemma bt_round_okD:
  "bt_round_ok chr wr k \<Longrightarrow> \<exists>ch. chr k = Some ch \<and> bt_writable (properties ch) \<and> wr k = None"
  by (auto simp: bt_round_ok_def split: option.splits)

text \<open>
  What every run of the loop does: the calls it adds carry at most \<open>chunkSize\<close> bytes
  each and spell a prefix of the rest of the payload; when it returns normally they are
  \<open>\<lceil>(S - i) / chunkSize\<rceil>\<close> calls spelling all of it.
\<close>

lemma bt_print_loop_calls:
  "\<exists>ws. snd (bt_print_loop chr wr data i issued) = issued @ ws
      \<and> (\<forall>w\<in>set ws. length (chunk_of w) \<le> chunkSize)
      \<and> concat (map chunk_of ws) = take (length ws * chunkSize) (drop i data)
      \<and> (fst (bt_print_loop chr wr data i issued) = Inr () \<longrightarrow>
           length ws = (length data - i + chunkSize - 1) div chunkSize
           \<and> concat (map chunk_of ws) = drop i data)"
proof (induction "length data - i" arbitrary: i issued rule: less_induct)
  case less
  have cs: "0 < chunkSize" by (simp add: chunkSize_def)
  consider (finished) "\<not> i < length data"
    | (null) "i < length data" "chr (length issued) = None"
    | (unwritable) ch where "i < length data" "chr (length issued) = Some ch"
        "\<not> bt_writable (properties ch)"
    | (fail) ch m where "i < length data" "chr (length issued) = Some ch"
        "bt_writable (properties ch)" "wr (length issued) = Some m"
    | (ok) ch where "i < length data" "chr (length issued) = Some ch"
        "bt_writable (properties ch)" "wr (length issued) = None"
    by (cases "chr (length issued)"; cases "wr (length issued)") auto
  then show ?case
  proof cases
    case finished
    then show ?thesis by (simp add: bt_loop_done chunkSize_def)
  next
    case null
    then show ?thesis by (simp add: bt_loop_null)
  next
    case unwritable
    then show ?thesis by (simp add: bt_loop_unwritable)
  next
    case fail
    let ?w = "bt_call (properties ch) (take chunkSize (drop i data))"
    have "bt_print_loop chr wr data i issued = (Inl (Error m), issued @ [?w])"
      using bt_loop_step_fail[of i data chr issued ch wr m] fail by simp
    then show ?thesis by (simp add: chunk_of_bt_call)
  next
    case ok
    let ?w = "bt_call (properties ch) (take chunkSize (drop i data))"
    have e: "bt_print_loop chr wr data i issued
             = bt_print_loop chr wr data (i + chunkSize) (issued @ [?w])"
      using bt_loop_step_ok[of i data chr issued ch wr] ok by simp
    have "length data - (i + chunkSize) < length data - i" using ok(1) cs by arith
    from less.hyps[OF this, of "issued @ [?w]"]
    obtain ws where ws:
      "snd (bt_print_loop chr wr data (i + chunkSize) (issued @ [?w])) = (issued @ [?w]) @ ws"
      "\<forall>w\<in>set ws. length (chunk_of w) \<le> chunkSize"
      "concat (map chunk_of ws) = take (length ws * chunkSize) (drop (i + chunkSize) data)"
      "fst (bt_print_loop chr wr data (i + chunkSize) (issued @ [?w])) = Inr () \<longrightarrow>
         length ws = (length data - (i + chunkSize) + chunkSize - 1) div chunkSize
         \<and> concat (map chunk_of ws) = drop (i + chunkSize) data"
      by blast
    have s: "snd (bt_print_loop chr wr data i issued) = issued @ (?w # ws)"
      using e ws(1) by simp
    have b: "\<forall>w\<in>set (?w # ws). length (chunk_of w) \<le> chunkSize"
      using ws(2) by (simp add: chunk_of_bt_call)
    have c: "concat (map chunk_of (?w # ws)) = take (length (?w # ws) * chunkSize) (drop i data)"
      using ws(3) by (simp add: chunk_of_bt_call take_chunk_more)
    have r: "fst (bt_print_loop chr wr data i issued) = Inr () \<longrightarrow>
         length (?w # ws) = (length data - i + chunkSize - 1) div chunkSize
         \<and> concat (map chunk_of (?w # ws)) = drop i data"
      using ws(4) e ceil_div_step[OF ok(1) cs] by (simp add: chunk_of_bt_call take_chunk_drop)
    show ?thesis using s b c r by blast
  qed
qed

text \<open>Rounds that go well take the loop \<open>k\<close> chunks further, one call each.\<close>

lemma bt_loop_skip:
  assumes "\<forall>j<k. bt_round_ok chr wr (length issued + j)" "i + k * chunkSize < length data"
  shows "\<exists>ws. length ws = k
      \<and> bt_print_loop chr wr data i issued
          = bt_print_loop chr wr data (i + k * chunkSize) (issued @ ws)"
  using assms
proof (induction k arbitrary: i issued)
  case 0
  then show ?case by simp
next
  case (Suc k)
  have lt: "i < length data" using Suc.prems(2) by simp
  have "bt_round_ok chr wr (length issued + 0)" using Suc.prems(1) by blast
  then obtain ch where ch: "chr (length issued) = Some ch" "bt_writable (properties ch)"
    "wr (length issued) = None" using bt_round_okD by fastforce
  let ?w = "bt_call (properties ch) (take chunkSize (drop i data))"
  have e: "bt_print_loop chr wr data i issued
           = bt_print_loop chr wr data (i + chunkSize) (issued @ [?w])"
    using bt_loop_step_ok[of i data chr issued ch wr] lt ch by simp
  have a: "\<forall>j<k. bt_round_ok chr wr (length (issued @ [?w]) + j)"
  proof (intro allI impI)
    fix j assume "j < k"
    then have "Suc j < Suc k" by simp
    then have "bt_round_ok chr wr (length issued + Suc j)" using Suc.prems(1) by blast
    then show "bt_round_ok chr wr (length (issued @ [?w]) + j)" by simp
  qed
  have b: "(i + chunkSize) + k * chunkSize < length data"
    using Suc.prems(2) by (simp add: algebra_simps)
  from Suc.IH[OF a b] obtain ws where ws: "length ws = k"
    "bt_print_loop chr wr data (i + chunkSize) (issued @ [?w])
       = bt_print_loop chr wr data (i + chunkSize + k * chunkSize) ((issued @ [?w]) @ ws)"
    by blast
  have "bt_print_loop chr wr data i issued
        = bt_print_loop chr wr data (i + Suc k * chunkSize) (issued @ (?w # ws))"
    using e ws(2) by (simp add: algebra_simps)
  moreover have "length (?w # ws) = Suc k" using ws(1) by simp
  ultimately show ?case by blast
qed

lemma bt_print_loop_ok:
  assumes "\<forall>k. i + k * chunkSize < length data \<longrightarrow> bt_round_ok chr wr (length issued + k)"
  shows "fst (bt_print_loop chr wr data i issued) = Inr ()"
  using assms
proof (induction "length data - i" arbitrary: i issued rule: less_induct)
  case less
  show ?case
  proof (cases "i < length data")
    case False
    then show ?thesis by (simp add: bt_loop_done)
  next
    case True
    have cs: "0 < chunkSize" by (simp add: chunkSize_def)
    have "bt_round_ok chr wr (length issued + 0)" using less.prems True by (metis add_0_right mult_zero_left)
    then obtain ch where ch: "chr (length issued) = Some ch" "bt_writable (properties ch)"
      "wr (length issued) = None" using bt_round_okD by fastforce
    let ?w = "bt_call (properties ch) (take chunkSize (drop i data))"
    have nx: "\<forall>k. (i + chunkSize) + k * chunkSize < length data
                \<longrightarrow> bt_round_ok chr wr (length (issued @ [?w]) + k)"
    proof (intro allI impI)
      fix k assume "(i + chunkSize) + k * chunkSize < length data"
      then have "i + Suc k * chunkSize < length data" by (simp add: algebra_simps)
      then have "bt_round_ok chr wr (length issued + Suc k)" using less.prems by blast
      then show "bt_round_ok chr wr (length (issued @ [?w]) + k)" by simp
    qed
    have "length data - (i + chunkSize) < length data - i" using True cs by arith
    from less.hyps[OF this nx]
    show ?thesis
      using bt_loop_step_ok[of i data chr issued ch wr] True ch by simp
  qed
qed

lemma bt_print_fst:
  "characteristic c = Some ch \<Longrightarrow>
   fst (bt_print c chr wr data) =
     (case fst (bt_print_loop (bt_field c chr) wr data 0 []) of
        Inl e \<Rightarrow> Inl (Error (''Bluetooth print failed: '' @ message e))
      | Inr u \<Rightarrow> Inr u)"
  by (simp add: bt_print_def split: prod.splits sum.splits)

lemma bt_print_snd:
  "characteristic c = Some ch \<Longrightarrow>
   snd (bt_print c chr wr data) = snd (bt_print_loop (bt_field c chr) wr data 0 [])"
  by (simp add: bt_print_def split: prod.splits sum.splits)

text \<open>
  C4, as amended. A Bluetooth send of a payload of \<open>S\<close> bytes with the chunk size
  \<open>C = chunkSize = 20\<close>, on a connection that holds a characteristic when \<^verbatim>\<open>print\<close> is
  called. Every write call carries at most \<open>C\<close> bytes and the calls, in order, spell a
  prefix of the payload. A send that succeeds has issued exactly \<open>\<lceil>S / C\<rceil>\<close> calls, which
  concatenate to the payload. The send succeeds when, in each of its \<open>\<lceil>S / C\<rceil>\<close> rounds,
  the connection still holds a characteristic, the characteristic accepts a kind of
  write, and the write resolves. The first write that rejects ends the send: the result
  is the failure, with the radio's message, and no call follows the rejected one. A round
  that finds a characteristic accepting no kind of write ends the send with a failure
  before any write of that round.
\<close>

theorem bluetooth_print_chunked:
  assumes "characteristic c = Some ch"
  shows "(\<forall>w\<in>set (snd (bt_print c chr wr data)). length (chunk_of w) \<le> chunkSize)
    \<and> concat (map chunk_of (snd (bt_print c chr wr data)))
        = take (length (snd (bt_print c chr wr data)) * chunkSize) data
    \<and> (fst (bt_print c chr wr data) = Inr () \<longrightarrow>
         length (snd (bt_print c chr wr data)) = (length data + chunkSize - 1) div chunkSize
         \<and> concat (map chunk_of (snd (bt_print c chr wr data))) = data)
    \<and> ((\<forall>k. k * chunkSize < length data \<longrightarrow>
            (\<exists>ch'. bt_field c chr k = Some ch'
               \<and> (prop_writeWithoutResponse (properties ch') \<or> prop_write (properties ch')))
            \<and> wr k = None)
         \<longrightarrow> fst (bt_print c chr wr data) = Inr ())
    \<and> (\<forall>k m. k * chunkSize < length data
         \<and> (\<forall>j<k. (\<exists>ch'. bt_field c chr j = Some ch'
               \<and> (prop_writeWithoutResponse (properties ch') \<or> prop_write (properties ch')))
               \<and> wr j = None)
         \<and> (\<exists>ch'. bt_field c chr k = Some ch'
               \<and> (prop_writeWithoutResponse (properties ch') \<or> prop_write (properties ch')))
         \<and> wr k = Some m \<longrightarrow>
         fst (bt_print c chr wr data) = Inl (Error (''Bluetooth print failed: '' @ m))
         \<and> length (snd (bt_print c chr wr data)) = Suc k)
    \<and> (\<forall>k ch'. k * chunkSize < length data
         \<and> (\<forall>j<k. (\<exists>ch'. bt_field c chr j = Some ch'
               \<and> (prop_writeWithoutResponse (properties ch') \<or> prop_write (properties ch')))
               \<and> wr j = None)
         \<and> bt_field c chr k = Some ch'
         \<and> \<not> prop_writeWithoutResponse (properties ch') \<and> \<not> prop_write (properties ch') \<longrightarrow>
         fst (bt_print c chr wr data)
           = Inl (Error ''Bluetooth print failed: Characteristic does not support writing'')
         \<and> length (snd (bt_print c chr wr data)) = k)"
proof -
  let ?F = "bt_field c chr"
  let ?L = "bt_print_loop ?F wr data 0 []"
  let ?R = "bt_print c chr wr data"
  have ok_iff: "\<And>k. ((\<exists>ch'. ?F k = Some ch'
               \<and> (prop_writeWithoutResponse (properties ch') \<or> prop_write (properties ch')))
               \<and> wr k = None) = bt_round_ok ?F wr k"
    by (auto simp: bt_round_ok_def bt_writable_def split: option.splits)
  from bt_print_loop_calls[of ?F wr data 0 "[]"]
  obtain ws where ws0: "snd ?L = [] @ ws"
    "\<forall>w\<in>set ws. length (chunk_of w) \<le> chunkSize"
    "concat (map chunk_of ws) = take (length ws * chunkSize) (drop 0 data)"
    "fst ?L = Inr () \<longrightarrow> length ws = (length data - 0 + chunkSize - 1) div chunkSize
        \<and> concat (map chunk_of ws) = drop 0 data"
    by blast
  have ws: "snd ?L = ws"
    "\<forall>w\<in>set ws. length (chunk_of w) \<le> chunkSize"
    "concat (map chunk_of ws) = take (length ws * chunkSize) data"
    "fst ?L = Inr () \<longrightarrow> length ws = (length data + chunkSize - 1) div chunkSize
        \<and> concat (map chunk_of ws) = data"
    using ws0 by (simp_all only: append_Nil drop_0 diff_zero)
  have s: "snd ?R = ws" using bt_print_snd[OF assms] ws(1) by simp
  have f: "fst ?R = Inr () \<longrightarrow> fst ?L = Inr ()"
    using bt_print_fst[OF assms, of chr wr data] by (simp split: sum.splits)
  have p1: "\<forall>w\<in>set (snd ?R). length (chunk_of w) \<le> chunkSize"
    using s ws(2) by simp
  have p2: "concat (map chunk_of (snd ?R)) = take (length (snd ?R) * chunkSize) data"
    using s ws(3) by simp
  have p3: "fst ?R = Inr () \<longrightarrow>
         length (snd ?R) = (length data + chunkSize - 1) div chunkSize
         \<and> concat (map chunk_of (snd ?R)) = data"
    using s ws(4) f by simp
  have p4: "(\<forall>k. k * chunkSize < length data \<longrightarrow>
            (\<exists>ch'. ?F k = Some ch'
               \<and> (prop_writeWithoutResponse (properties ch') \<or> prop_write (properties ch')))
            \<and> wr k = None)
         \<longrightarrow> fst ?R = Inr ()"
  proof
    assume "\<forall>k. k * chunkSize < length data \<longrightarrow>
            (\<exists>ch'. ?F k = Some ch'
               \<and> (prop_writeWithoutResponse (properties ch') \<or> prop_write (properties ch')))
            \<and> wr k = None"
    then have "\<forall>k. 0 + k * chunkSize < length data \<longrightarrow> bt_round_ok ?F wr (length ([]::bt_write list) + k)"
      by (simp only: ok_iff) simp
    then have "fst ?L = Inr ()" by (rule bt_print_loop_ok)
    then show "fst ?R = Inr ()"
      using bt_print_fst[OF assms, of chr wr data] by simp
  qed
  have skip: "\<exists>vs. length vs = k \<and> ?L = bt_print_loop ?F wr data (k * chunkSize) vs"
    if a: "k * chunkSize < length data"
      "\<forall>j<k. (\<exists>ch'. ?F j = Some ch'
               \<and> (prop_writeWithoutResponse (properties ch') \<or> prop_write (properties ch')))
               \<and> wr j = None" for k
  proof -
    have "\<forall>j<k. bt_round_ok ?F wr (length ([]::bt_write list) + j)"
      using a(2) by (simp only: ok_iff) simp
    moreover have "0 + k * chunkSize < length data" using a(1) by simp
    ultimately show ?thesis using bt_loop_skip[of k ?F wr "[]" 0 data] by simp
  qed
  have p5: "\<forall>k m. k * chunkSize < length data
         \<and> (\<forall>j<k. (\<exists>ch'. ?F j = Some ch'
               \<and> (prop_writeWithoutResponse (properties ch') \<or> prop_write (properties ch')))
               \<and> wr j = None)
         \<and> (\<exists>ch'. ?F k = Some ch'
               \<and> (prop_writeWithoutResponse (properties ch') \<or> prop_write (properties ch')))
         \<and> wr k = Some m \<longrightarrow>
         fst ?R = Inl (Error (''Bluetooth print failed: '' @ m))
         \<and> length (snd ?R) = Suc k"
  proof (intro allI impI, elim conjE exE)
    fix k m ch'
    assume a: "k * chunkSize < length data"
      "\<forall>j<k. (\<exists>ch'. ?F j = Some ch'
               \<and> (prop_writeWithoutResponse (properties ch') \<or> prop_write (properties ch')))
               \<and> wr j = None"
      and b: "?F k = Some ch'" "prop_writeWithoutResponse (properties ch') \<or> prop_write (properties ch')"
      and m: "wr k = Some m"
    from skip[OF a] obtain vs where vs: "length vs = k"
      "?L = bt_print_loop ?F wr data (k * chunkSize) vs" by blast
    have "bt_print_loop ?F wr data (k * chunkSize) vs
        = (Inl (Error m), vs @ [bt_call (properties ch') (take chunkSize (drop (k * chunkSize) data))])"
      using bt_loop_step_fail[of "k * chunkSize" data ?F vs ch' wr m] a(1) b m vs(1)
      by (simp add: bt_writable_def)
    then show "fst ?R = Inl (Error (''Bluetooth print failed: '' @ m))
         \<and> length (snd ?R) = Suc k"
      using bt_print_fst[OF assms, of chr wr data] bt_print_snd[OF assms, of chr wr data] vs
      by simp
  qed
  have p6: "\<forall>k ch'. k * chunkSize < length data
         \<and> (\<forall>j<k. (\<exists>ch'. ?F j = Some ch'
               \<and> (prop_writeWithoutResponse (properties ch') \<or> prop_write (properties ch')))
               \<and> wr j = None)
         \<and> ?F k = Some ch'
         \<and> \<not> prop_writeWithoutResponse (properties ch') \<and> \<not> prop_write (properties ch') \<longrightarrow>
         fst ?R = Inl (Error ''Bluetooth print failed: Characteristic does not support writing'')
         \<and> length (snd ?R) = k"
  proof (intro allI impI, elim conjE)
    fix k ch'
    assume a: "k * chunkSize < length data"
      "\<forall>j<k. (\<exists>ch'. ?F j = Some ch'
               \<and> (prop_writeWithoutResponse (properties ch') \<or> prop_write (properties ch')))
               \<and> wr j = None"
      and b: "?F k = Some ch'" "\<not> prop_writeWithoutResponse (properties ch')"
        "\<not> prop_write (properties ch')"
    from skip[OF a] obtain vs where vs: "length vs = k"
      "?L = bt_print_loop ?F wr data (k * chunkSize) vs" by blast
    have "bt_print_loop ?F wr data (k * chunkSize) vs
        = (Inl (Error ''Characteristic does not support writing''), vs)"
      using bt_loop_unwritable[of "k * chunkSize" data ?F vs ch' wr] a(1) b vs(1)
      by (simp add: bt_writable_def)
    then show "fst ?R = Inl (Error ''Bluetooth print failed: Characteristic does not support writing'')
         \<and> length (snd ?R) = k"
      using bt_print_fst[OF assms, of chr wr data] bt_print_snd[OF assms, of chr wr data] vs
      by simp
  qed
  from p1 p2 p3 p4 p5 p6 show ?thesis by (intro conjI)
qed


theorem bluetooth_print_chunked_witness:
  "characteristic \<lparr>bt_device = Some True,
       characteristic = Some \<lparr>uuid = ''2af1'', properties = \<lparr>prop_write = True, prop_writeWithoutResponse = False\<rparr>\<rparr>,
       bt_isConnectedFlag = True, bt_currentStatus = ''Connected to Bluetooth printer''\<rparr>
     = Some \<lparr>uuid = ''2af1'', properties = \<lparr>prop_write = True, prop_writeWithoutResponse = False\<rparr>\<rparr>
   \<and> fst (bt_print \<lparr>bt_device = Some True,
       characteristic = Some \<lparr>uuid = ''2af1'', properties = \<lparr>prop_write = True, prop_writeWithoutResponse = False\<rparr>\<rparr>,
       bt_isConnectedFlag = True, bt_currentStatus = ''Connected to Bluetooth printer''\<rparr>
       [1 \<mapsto> \<lparr>uuid = ''2af1'', properties = \<lparr>prop_write = True, prop_writeWithoutResponse = False\<rparr>\<rparr>,
        2 \<mapsto> \<lparr>uuid = ''2af1'', properties = \<lparr>prop_write = True, prop_writeWithoutResponse = False\<rparr>\<rparr>]
       Map.empty (replicate 45 7)) = Inr ()
   \<and> length (snd (bt_print \<lparr>bt_device = Some True,
       characteristic = Some \<lparr>uuid = ''2af1'', properties = \<lparr>prop_write = True, prop_writeWithoutResponse = False\<rparr>\<rparr>,
       bt_isConnectedFlag = True, bt_currentStatus = ''Connected to Bluetooth printer''\<rparr>
       [1 \<mapsto> \<lparr>uuid = ''2af1'', properties = \<lparr>prop_write = True, prop_writeWithoutResponse = False\<rparr>\<rparr>,
        2 \<mapsto> \<lparr>uuid = ''2af1'', properties = \<lparr>prop_write = True, prop_writeWithoutResponse = False\<rparr>\<rparr>]
       Map.empty (replicate 45 7))) = 3
   \<and> fst (bt_print \<lparr>bt_device = Some True,
       characteristic = Some \<lparr>uuid = ''2af1'', properties = \<lparr>prop_write = True, prop_writeWithoutResponse = False\<rparr>\<rparr>,
       bt_isConnectedFlag = True, bt_currentStatus = ''Connected to Bluetooth printer''\<rparr>
       [1 \<mapsto> \<lparr>uuid = ''2af1'', properties = \<lparr>prop_write = True, prop_writeWithoutResponse = False\<rparr>\<rparr>]
       [1 \<mapsto> ''GATT operation failed''] (replicate 45 7))
       = Inl (Error ''Bluetooth print failed: GATT operation failed'')
   \<and> length (snd (bt_print \<lparr>bt_device = Some True,
       characteristic = Some \<lparr>uuid = ''2af1'', properties = \<lparr>prop_write = True, prop_writeWithoutResponse = False\<rparr>\<rparr>,
       bt_isConnectedFlag = True, bt_currentStatus = ''Connected to Bluetooth printer''\<rparr>
       [1 \<mapsto> \<lparr>uuid = ''2af1'', properties = \<lparr>prop_write = True, prop_writeWithoutResponse = False\<rparr>\<rparr>]
       [1 \<mapsto> ''GATT operation failed''] (replicate 45 7))) = 2"
proof -
  let ?ch = "\<lparr>uuid = ''2af1'', properties = \<lparr>prop_write = True, prop_writeWithoutResponse = False\<rparr>\<rparr>"
  let ?c = "\<lparr>bt_device = Some True, characteristic = Some ?ch,
       bt_isConnectedFlag = True, bt_currentStatus = ''Connected to Bluetooth printer''\<rparr>"
  let ?chr = "[1 \<mapsto> ?ch, 2 \<mapsto> ?ch]"
  let ?chr1 = "[1 \<mapsto> ?ch]"
  let ?wr = "[(1::nat) \<mapsto> ''GATT operation failed'']"
  let ?data = "replicate 45 (7::byte)"
  have h: "characteristic ?c = Some ?ch" by simp
  have rounds: "k = 0 \<or> k = 1 \<or> k = 2" if "k * chunkSize < length ?data" for k
    using that by (simp add: chunkSize_def) arith
  note t = bluetooth_print_chunked [OF h, of ?chr Map.empty ?data]
  have p: "\<forall>k. k * chunkSize < length ?data \<longrightarrow>
            (\<exists>ch'. bt_field ?c ?chr k = Some ch'
               \<and> (prop_writeWithoutResponse (properties ch') \<or> prop_write (properties ch')))
            \<and> Map.empty k = (None::string option)"
  proof (intro allI impI)
    fix k assume "k * chunkSize < length ?data"
    from rounds[OF this]
    show "(\<exists>ch'. bt_field ?c ?chr k = Some ch'
               \<and> (prop_writeWithoutResponse (properties ch') \<or> prop_write (properties ch')))
            \<and> Map.empty k = (None::string option)"
      by (auto simp: bt_field_def)
  qed
  have a: "fst (bt_print ?c ?chr Map.empty ?data) = Inr ()"
    using t[THEN conjunct2, THEN conjunct2, THEN conjunct2, THEN conjunct1] p by (rule mp)
  have b: "length (snd (bt_print ?c ?chr Map.empty ?data)) = (length ?data + chunkSize - 1) div chunkSize"
    using t[THEN conjunct2, THEN conjunct2, THEN conjunct1] a by (rule_tac conjunct1) (erule mp)
  have n: "(length ?data + chunkSize - 1) div chunkSize = 3" by (simp add: chunkSize_def)
  note u = bluetooth_print_chunked [OF h, of ?chr1 ?wr ?data, THEN conjunct2, THEN conjunct2,
      THEN conjunct2, THEN conjunct2, THEN conjunct1, rule_format, of 1 "''GATT operation failed''"]
  have q: "1 * chunkSize < length ?data
         \<and> (\<forall>j<1. (\<exists>ch'. bt_field ?c ?chr1 j = Some ch'
               \<and> (prop_writeWithoutResponse (properties ch') \<or> prop_write (properties ch')))
               \<and> ?wr j = None)
         \<and> (\<exists>ch'. bt_field ?c ?chr1 1 = Some ch'
               \<and> (prop_writeWithoutResponse (properties ch') \<or> prop_write (properties ch')))
         \<and> ?wr 1 = Some ''GATT operation failed''"
    by (simp add: chunkSize_def bt_field_def)
  have bad: "fst (bt_print ?c ?chr1 ?wr ?data) = Inl (Error ''Bluetooth print failed: GATT operation failed'')
      \<and> length (snd (bt_print ?c ?chr1 ?wr ?data)) = 2"
    using u[OF q] by simp
  show ?thesis using h a b n bad by (simp only:)
qed

text \<open>
  The claim fails where the connection holds a characteristic that accepts no kind of
  write, which \<^verbatim>\<open>connect()\<close> installs (\<^verbatim>\<open>|| characteristics[0]\<close>) when the service has no
  writable one: a payload of 5 bytes is not sent in \<open>\<lceil>5 / 20\<rceil> = 1\<close> write but in
  none, though no write has failed.
\<close>

theorem bluetooth_print_unwritable_counterexample:
  "bt_print \<lparr>bt_device = Some True,
       characteristic = Some \<lparr>uuid = ''2a00'', properties = \<lparr>prop_write = False, prop_writeWithoutResponse = False\<rparr>\<rparr>,
       bt_isConnectedFlag = True, bt_currentStatus = ''Connected to Bluetooth printer''\<rparr>
     Map.empty Map.empty [72, 101, 108, 108, 111]
   = (Inl (Error ''Bluetooth print failed: Characteristic does not support writing''), [])
   \<and> (length [72, 101, 108, 108, 111 :: byte] + chunkSize - 1) div chunkSize = 1"
  by (simp add: bt_print_def bt_field_def bt_print_loop.simps chunkSize_def)

text \<open>
  A call of \<^verbatim>\<open>disconnect()\<close> while the send waits sets the field to \<^verbatim>\<open>null\<close>; the next round
  fails on reading it. Here that happens after the first of three writes, all writes
  resolving.
\<close>

lemma bluetooth_print_disconnected_midway:
  "bt_print \<lparr>bt_device = Some True,
       characteristic = Some \<lparr>uuid = ''2af1'', properties = \<lparr>prop_write = True, prop_writeWithoutResponse = False\<rparr>\<rparr>,
       bt_isConnectedFlag = True, bt_currentStatus = ''Connected to Bluetooth printer''\<rparr>
     Map.empty Map.empty (replicate 45 7)
   = (Inl (Error (''Bluetooth print failed: '' @ null_read_message)),
      [WriteWithResponse (replicate 20 7)])"
  by (simp add: bt_print_def bt_field_def bt_print_loop.simps chunkSize_def)

end
